theory Spec2Isabelle
  imports Main "HOL-Library.Word"
begin

unbundle bit_operations_syntax

section \<open>NXP SimTemp: the sample pipeline of the virtual temperature sensor\<close>

text \<open>
  A shallow embedding of the kernel driver (the main implementation file of the
  module together with \<^verbatim>\<open>nxp_simtemp.h\<close> and \<^verbatim>\<open>nxp_simtemp_ioctl.h\<close>).
  C integers are machine words: \<^verbatim>\<open>u32\<close>, \<^verbatim>\<open>s32\<close> and \<^verbatim>\<open>unsigned int\<close>
  are \<open>32 word\<close> (a signed value is read with \<open>sint\<close> and compared
  with \<open><s\<close>), \<^verbatim>\<open>u64\<close> and \<^verbatim>\<open>ktime_t\<close> are \<open>64 word\<close>.
  Every function takes the device state and returns the new one; what the
  kernel supplies from outside (random bytes, the clock, a pending signal, a
  faulting user buffer) is a parameter. Locks, barriers and log messages
  have no state in the model.
\<close>

subsection \<open>Types and constants of the headers\<close>

type_synonym u32 = "32 word"
type_synonym s32 = "32 word"
type_synonym u64 = "64 word"
type_synonym ktime_t = "64 word"

text \<open>Error numbers, as the kernel defines them.\<close>

definition EAGAIN :: int where "EAGAIN = 11"
definition EFAULT :: int where "EFAULT = 14"
definition EINVAL :: int where "EINVAL = 22"
definition ENOSPC :: int where "ENOSPC = 28"
definition ERANGE :: int where "ERANGE = 34"
definition ERESTARTSYS :: int where "ERESTARTSYS = 512"

text \<open>\<^verbatim>\<open>struct simtemp_sample\<close>, packed: 8 + 4 + 4 bytes.\<close>

record simtemp_sample =
  timestamp_ns :: u64
  temp_mC :: s32
  flags :: u32

definition sizeof_simtemp_sample :: nat where
  "sizeof_simtemp_sample = 16"

definition SIMTEMP_FLAG_NEW_SAMPLE :: u32 where
  "SIMTEMP_FLAG_NEW_SAMPLE = push_bit 0 1"

definition SIMTEMP_FLAG_THRESHOLD_CROSSED :: u32 where
  "SIMTEMP_FLAG_THRESHOLD_CROSSED = push_bit 1 1"

definition SIMTEMP_SAMPLING_MS_MIN :: u32 where "SIMTEMP_SAMPLING_MS_MIN = 1"
definition SIMTEMP_SAMPLING_MS_MAX :: u32 where "SIMTEMP_SAMPLING_MS_MAX = 10000"
definition SIMTEMP_THRESHOLD_MC_MIN :: s32 where "SIMTEMP_THRESHOLD_MC_MIN = - 40000"
definition SIMTEMP_THRESHOLD_MC_MAX :: s32 where "SIMTEMP_THRESHOLD_MC_MAX = 125000"

definition DEFAULT_SAMPLING_MS :: u32 where "DEFAULT_SAMPLING_MS = 100"
definition DEFAULT_THRESHOLD_MC :: s32 where "DEFAULT_THRESHOLD_MC = 45000"

definition RING_BUFFER_SIZE :: nat where "RING_BUFFER_SIZE = 64"
definition RING_BUFFER_MASK :: u32 where "RING_BUFFER_MASK = 64 - 1"

text \<open>
  \<^verbatim>\<open>enum simtemp_mode\<close>. A C enum object can hold any integer, so the mode is a
  word and the three enumerators are constants; every other value is an
  unrecognised mode.
\<close>

type_synonym simtemp_mode = "32 word"

definition SIMTEMP_MODE_NORMAL :: simtemp_mode where "SIMTEMP_MODE_NORMAL = 0"
definition SIMTEMP_MODE_NOISY :: simtemp_mode where "SIMTEMP_MODE_NOISY = 1"
definition SIMTEMP_MODE_RAMP :: simtemp_mode where "SIMTEMP_MODE_RAMP = 2"
definition DEFAULT_MODE :: simtemp_mode where "DEFAULT_MODE = SIMTEMP_MODE_NORMAL"

record simtemp_stats =
  total_samples :: u64
  threshold_alerts :: u64
  read_count :: u64
  poll_count :: u64
  last_error :: u32

record simtemp_ringbuf =
  buffer :: "simtemp_sample list"
  head :: u32
  tail :: u32

text \<open>
  The high-resolution timer, as far as the driver programs it: either not
  queued, or queued to expire the given interval after the instant it was
  (re)armed.
\<close>

datatype hrtimer = Timer_inactive | Timer_armed ktime_t

record simtemp_device =
  timer :: hrtimer
  sampling_period :: ktime_t
  ringbuf :: simtemp_ringbuf
  sampling_ms :: u32
  threshold_mC :: s32
  mode :: simtemp_mode
  current_temp_mC :: s32
  ramp_direction :: bool
  stats :: simtemp_stats
  threshold_crossed :: bool
  device_open :: bool

subsection \<open>Kernel services used by the driver\<close>

definition ms_to_ktime :: "u32 \<Rightarrow> ktime_t" where
  "ms_to_ktime ms = ucast ms * 1000000"

definition hrtimer_cancel :: "hrtimer \<Rightarrow> hrtimer" where
  "hrtimer_cancel t = Timer_inactive"

text \<open>\<^verbatim>\<open>hrtimer_start(timer, tim, HRTIMER_MODE_REL)\<close>: expire \<open>tim\<close> from now.\<close>

definition hrtimer_start :: "hrtimer \<Rightarrow> ktime_t \<Rightarrow> hrtimer" where
  "hrtimer_start t tim = Timer_armed tim"

text \<open>
  \<^verbatim>\<open>hrtimer_forward_now(timer, interval)\<close> inside the callback, followed by
  the callback's \<^verbatim>\<open>HRTIMER_RESTART\<close>: the timer is queued again, one interval
  further.
\<close>

definition hrtimer_forward_now :: "hrtimer \<Rightarrow> ktime_t \<Rightarrow> hrtimer" where
  "hrtimer_forward_now t interval = Timer_armed interval"

text \<open>
  \<^verbatim>\<open>wait_event_interruptible(wq, condition)\<close> seen from one state: it returns
  0 when the condition holds, \<^verbatim>\<open>-ERESTARTSYS\<close> when it does not and a signal
  is pending, and otherwise the caller stays asleep (\<open>None\<close>) until the
  state changes.
\<close>

definition wait_event_interruptible :: "bool \<Rightarrow> bool \<Rightarrow> int option" where
  "wait_event_interruptible condition signal_pending =
     (if condition then Some 0
      else if signal_pending then Some (- ERESTARTSYS)
      else None)"

text \<open>
  The kernel's decimal parsers \<^verbatim>\<open>kstrtouint(s, 10, &res)\<close> and
  \<^verbatim>\<open>kstrtoint(s, 10, &res)\<close>: an optional sign, at least one digit, an
  optional single trailing newline, nothing else; \<^verbatim>\<open>-EINVAL\<close> for malformed
  text and \<^verbatim>\<open>-ERANGE\<close> for a value that does not fit.
\<close>

definition is_digit :: "char \<Rightarrow> bool" where
  "is_digit c = ((48::nat) \<le> of_char c \<and> of_char c \<le> (57::nat))"

definition digit_val :: "char \<Rightarrow> int" where
  "digit_val c = of_char c - 48"

fun parse_integer :: "string \<Rightarrow> int \<Rightarrow> nat \<Rightarrow> int \<times> nat \<times> string" where
  "parse_integer [] acc n = (acc, n, [])"
| "parse_integer (c # cs) acc n =
     (if is_digit c then parse_integer cs (acc * 10 + digit_val c) (Suc n)
      else (acc, n, c # cs))"

definition kstrtoull_nosign :: "string \<Rightarrow> int + int" where
  "kstrtoull_nosign s =
     (case parse_integer s 0 0 of (v, n, rest) \<Rightarrow>
        if 2 ^ 64 \<le> v then Inl (- ERANGE)
        else if n = 0 then Inl (- EINVAL)
        else if rest = [] \<or> rest = [CHR 0x0A] then Inr v
        else Inl (- EINVAL))"

definition kstrtoull :: "string \<Rightarrow> int + int" where
  "kstrtoull s = (case s of CHR ''+'' # s' \<Rightarrow> kstrtoull_nosign s' | _ \<Rightarrow> kstrtoull_nosign s)"

definition kstrtouint :: "string \<Rightarrow> int + u32" where
  "kstrtouint s =
     (case kstrtoull s of
        Inl e \<Rightarrow> Inl e
      | Inr v \<Rightarrow> if 2 ^ 32 \<le> v then Inl (- ERANGE) else Inr (of_int v))"

definition kstrtoll :: "string \<Rightarrow> int + int" where
  "kstrtoll s =
     (case s of
        CHR ''-'' # s' \<Rightarrow>
          (case kstrtoull_nosign s' of
             Inl e \<Rightarrow> Inl e
           | Inr v \<Rightarrow> if 2 ^ 63 < v then Inl (- ERANGE) else Inr (- v))
      | _ \<Rightarrow>
          (case kstrtoull s of
             Inl e \<Rightarrow> Inl e
           | Inr v \<Rightarrow> if 2 ^ 63 \<le> v then Inl (- ERANGE) else Inr v))"

definition kstrtoint :: "string \<Rightarrow> int + s32" where
  "kstrtoint s =
     (case kstrtoll s of
        Inl e \<Rightarrow> Inl e
      | Inr v \<Rightarrow> if v < - (2 ^ 31) \<or> 2 ^ 31 \<le> v then Inl (- ERANGE) else Inr (of_int v))"

text \<open>\<^verbatim>\<open>sysfs_emit\<close> with \<^verbatim>\<open>"%u\n"\<close> and \<^verbatim>\<open>"%d\n"\<close>: the decimal text.\<close>

fun dec_digits :: "nat \<Rightarrow> int \<Rightarrow> string" where
  "dec_digits 0 n = []"
| "dec_digits (Suc fuel) n =
     (if n < 10 then [char_of (48 + n)]
      else dec_digits fuel (n div 10) @ [char_of (48 + n mod 10)])"

definition emit_u :: "u32 \<Rightarrow> string" where
  "emit_u v = dec_digits 10 (uint v) @ [CHR 0x0A]"

definition emit_d :: "s32 \<Rightarrow> string" where
  "emit_d v =
     (if sint v < 0 then CHR ''-'' # dec_digits 10 (- sint v) else dec_digits 10 (sint v))
     @ [CHR 0x0A]"

subsection \<open>Ring buffer operations\<close>

definition zero_sample :: simtemp_sample where
  "zero_sample = \<lparr>timestamp_ns = 0, temp_mC = 0, flags = 0\<rparr>"

definition simtemp_ringbuf_init :: simtemp_ringbuf where
  "simtemp_ringbuf_init =
     \<lparr>buffer = replicate RING_BUFFER_SIZE zero_sample, head = 0, tail = 0\<rparr>"

definition simtemp_ringbuf_empty :: "simtemp_ringbuf \<Rightarrow> bool" where
  "simtemp_ringbuf_empty rb = (head rb = tail rb)"

definition simtemp_ringbuf_count :: "simtemp_ringbuf \<Rightarrow> u32" where
  "simtemp_ringbuf_count rb = (head rb - tail rb) AND RING_BUFFER_MASK"

text \<open>
  \<^verbatim>\<open>simtemp_ringbuf_put\<close> returns the C return value and the buffer after
  the call. Both indices stay below 64 (see \<open>rb_wf\<close> below), so the array
  accesses are in range.
\<close>

definition simtemp_ringbuf_put :: "simtemp_ringbuf \<Rightarrow> simtemp_sample \<Rightarrow> int \<times> simtemp_ringbuf" where
  "simtemp_ringbuf_put rb sample =
     (let head' = head rb;
          next_head = (head' + 1) AND RING_BUFFER_MASK
      in if next_head = tail rb then (- ENOSPC, rb)
         else (0, rb\<lparr>buffer := (buffer rb)[unat head' := sample], head := next_head\<rparr>))"

text \<open>
  \<^verbatim>\<open>simtemp_ringbuf_get\<close> returns the C return value, the buffer after the
  call and what was stored through the \<^verbatim>\<open>sample\<close> pointer (\<open>None\<close> when
  nothing was stored).
\<close>

definition simtemp_ringbuf_get :: "simtemp_ringbuf \<Rightarrow> int \<times> simtemp_ringbuf \<times> simtemp_sample option" where
  "simtemp_ringbuf_get rb =
     (if simtemp_ringbuf_empty rb then (- EAGAIN, rb, None)
      else (let tail' = tail rb
            in (0, rb\<lparr>tail := (tail' + 1) AND RING_BUFFER_MASK\<rparr>, Some (buffer rb ! unat tail'))))"

subsection \<open>Temperature generation\<close>

text \<open>
  \<open>random\<close> is what \<^verbatim>\<open>get_random_bytes\<close> delivers in the Normal and Noisy
  branches; the other branches do not draw it.
\<close>

definition simtemp_generate_temperature :: "u32 \<Rightarrow> simtemp_device \<Rightarrow> s32 \<times> simtemp_device" where
  "simtemp_generate_temperature random dev =
     (if mode dev = SIMTEMP_MODE_NORMAL then
        (45000 + (random mod 4000 - 2000), dev)
      else if mode dev = SIMTEMP_MODE_NOISY then
        (let t0 = 45000 + (random mod 30000 - 15000);
             t1 = (if t0 <s 30000 then 30000 else t0);
             t2 = (if 60000 <s t1 then 60000 else t1)
         in (t2, dev))
      else if mode dev = SIMTEMP_MODE_RAMP then
        (let dev' =
           (if ramp_direction dev then
              (let d = dev\<lparr>current_temp_mC := current_temp_mC dev + 500\<rparr>
               in if 70000 \<le>s current_temp_mC d
                  then d\<lparr>current_temp_mC := 70000, ramp_direction := False\<rparr>
                  else d)
            else
              (let d = dev\<lparr>current_temp_mC := current_temp_mC dev - 500\<rparr>
               in if current_temp_mC d \<le>s 30000
                  then d\<lparr>current_temp_mC := 30000, ramp_direction := True\<rparr>
                  else d))
         in (current_temp_mC dev', dev'))
      else (45000, dev))"

subsection \<open>The timer callback\<close>

text \<open>
  The callback in three parts, in the order of the source: generate, build
  the sample and check the threshold (\<open>threshold_check\<close>), then queue the
  sample and update the statistics and the timer (\<open>enqueue_sample\<close>).
  \<open>now\<close> is \<^verbatim>\<open>ktime_get_ns()\<close>.
\<close>

definition threshold_check :: "s32 \<Rightarrow> u64 \<Rightarrow> simtemp_device \<Rightarrow> simtemp_sample \<times> simtemp_device" where
  "threshold_check temp now dev =
     (let sample = \<lparr>timestamp_ns = now, temp_mC = temp, flags = SIMTEMP_FLAG_NEW_SAMPLE\<rparr>
      in if threshold_mC dev <s temp then
           (if \<not> threshold_crossed dev then
              (sample\<lparr>flags := flags sample OR SIMTEMP_FLAG_THRESHOLD_CROSSED\<rparr>,
               dev\<lparr>threshold_crossed := True,
                   stats := (stats dev)\<lparr>threshold_alerts := threshold_alerts (stats dev) + 1\<rparr>\<rparr>)
            else (sample, dev))
         else (sample, dev\<lparr>threshold_crossed := False\<rparr>))"

definition enqueue_sample :: "simtemp_sample \<Rightarrow> simtemp_device \<Rightarrow> int \<times> simtemp_device" where
  "enqueue_sample sample dev =
     (case simtemp_ringbuf_put (ringbuf dev) sample of (ret, rb) \<Rightarrow>
        (let d1 = dev\<lparr>ringbuf := rb\<rparr>;
             d2 = d1\<lparr>stats := (stats d1)\<lparr>total_samples := total_samples (stats d1) + 1\<rparr>\<rparr>;
             d3 = d2\<lparr>timer := hrtimer_forward_now (timer d2) (sampling_period d2)\<rparr>
         in (ret, d3)))"

definition simtemp_timer_callback :: "u32 \<Rightarrow> u64 \<Rightarrow> simtemp_device \<Rightarrow> simtemp_device" where
  "simtemp_timer_callback random now dev =
     (case simtemp_generate_temperature random dev of (temp, d1) \<Rightarrow>
        (case threshold_check temp now d1 of (sample, d2) \<Rightarrow>
           snd (enqueue_sample sample d2)))"

subsection \<open>File operations: read\<close>

text \<open>
  \<^verbatim>\<open>simtemp_read\<close>: \<open>nonblock\<close> is \<^verbatim>\<open>O_NONBLOCK\<close> in the file flags,
  \<open>count\<close> the size of the caller's buffer, \<open>signal_pending\<close> whether a
  signal arrives while the caller waits, \<open>copy_fault\<close> whether
  \<^verbatim>\<open>copy_to_user\<close> fails. The result is the return value, the device after the
  call and the sample delivered to the caller, if any; \<open>None\<close> is a caller
  still asleep on the wait queue.
\<close>

definition simtemp_read ::
  "bool \<Rightarrow> nat \<Rightarrow> bool \<Rightarrow> bool \<Rightarrow> simtemp_device \<Rightarrow> (int \<times> simtemp_device \<times> simtemp_sample option) option" where
  "simtemp_read nonblock count signal_pending copy_fault dev =
     (let finish = (\<lambda>rb sample.
            (let d1 = dev\<lparr>ringbuf := rb\<rparr>;
                 d2 = d1\<lparr>stats := (stats d1)\<lparr>read_count := read_count (stats d1) + 1\<rparr>\<rparr>
             in if copy_fault then Some (- EFAULT, d2, None)
                else Some (int sizeof_simtemp_sample, d2, sample)))
      in if count < sizeof_simtemp_sample then Some (- EINVAL, dev, None)
         else if nonblock then
           (case simtemp_ringbuf_get (ringbuf dev) of (ret, rb, sample) \<Rightarrow>
              if ret = - EAGAIN then Some (- EAGAIN, dev\<lparr>ringbuf := rb\<rparr>, None)
              else finish rb sample)
         else
           (case wait_event_interruptible (\<not> simtemp_ringbuf_empty (ringbuf dev)) signal_pending of
              None \<Rightarrow> None
            | Some wret \<Rightarrow>
                if wret \<noteq> 0 then Some (- ERESTARTSYS, dev, None)
                else
                  (case simtemp_ringbuf_get (ringbuf dev) of (ret, rb, sample) \<Rightarrow>
                     if ret \<noteq> 0 then Some (- EAGAIN, dev\<lparr>ringbuf := rb\<rparr>, None)
                     else finish rb sample)))"

subsection \<open>Sysfs attributes\<close>

definition sampling_ms_show :: "simtemp_device \<Rightarrow> string" where
  "sampling_ms_show sdev = emit_u (sampling_ms sdev)"

text \<open>
  The store functions return the C return value (\<open>count\<close> on success, a
  negative error number otherwise) and the device after the call.
\<close>

definition sampling_ms_store :: "string \<Rightarrow> nat \<Rightarrow> simtemp_device \<Rightarrow> int \<times> simtemp_device" where
  "sampling_ms_store buf count sdev =
     (case kstrtouint buf of
        Inl ret \<Rightarrow> (ret, sdev)
      | Inr val \<Rightarrow>
          if val < SIMTEMP_SAMPLING_MS_MIN \<or> val > SIMTEMP_SAMPLING_MS_MAX then (- EINVAL, sdev)
          else
            (let d1 = sdev\<lparr>sampling_ms := val\<rparr>;
                 d2 = d1\<lparr>sampling_period := ms_to_ktime val\<rparr>;
                 d3 = d2\<lparr>timer := hrtimer_cancel (timer d2)\<rparr>;
                 d4 = d3\<lparr>timer := hrtimer_start (timer d3) (sampling_period d3)\<rparr>
             in (int count, d4)))"

definition threshold_mC_show :: "simtemp_device \<Rightarrow> string" where
  "threshold_mC_show sdev = emit_d (threshold_mC sdev)"

definition threshold_mC_store :: "string \<Rightarrow> nat \<Rightarrow> simtemp_device \<Rightarrow> int \<times> simtemp_device" where
  "threshold_mC_store buf count sdev =
     (case kstrtoint buf of
        Inl ret \<Rightarrow> (ret, sdev)
      | Inr val \<Rightarrow>
          if val <s SIMTEMP_THRESHOLD_MC_MIN \<or> SIMTEMP_THRESHOLD_MC_MAX <s val then (- EINVAL, sdev)
          else (int count, sdev\<lparr>threshold_mC := val\<rparr>))"

subsection \<open>Probe\<close>

text \<open>
  The device as \<^verbatim>\<open>simtemp_probe\<close> leaves it when every registration
  succeeds: zeroed by \<^verbatim>\<open>devm_kzalloc\<close>, then the defaults, overridden by the
  device-tree properties \<open>dt_sampling\<close> and \<open>dt_threshold\<close> when present.
\<close>

definition simtemp_probe :: "u32 option \<Rightarrow> u32 option \<Rightarrow> simtemp_device" where
  "simtemp_probe dt_sampling dt_threshold =
     (let ms = (case dt_sampling of
                  None \<Rightarrow> DEFAULT_SAMPLING_MS
                | Some val \<Rightarrow>
                    if val \<ge> SIMTEMP_SAMPLING_MS_MIN \<and> val \<le> SIMTEMP_SAMPLING_MS_MAX then val
                    else DEFAULT_SAMPLING_MS);
          th = (case dt_threshold of None \<Rightarrow> DEFAULT_THRESHOLD_MC | Some val \<Rightarrow> val)
      in \<lparr>timer = hrtimer_start Timer_inactive (ms_to_ktime ms),
          sampling_period = ms_to_ktime ms,
          ringbuf = simtemp_ringbuf_init,
          sampling_ms = ms,
          threshold_mC = th,
          mode = DEFAULT_MODE,
          current_temp_mC = 40000,
          ramp_direction = True,
          stats = \<lparr>total_samples = 0, threshold_alerts = 0, read_count = 0, poll_count = 0,
                   last_error = 0\<rparr>,
          threshold_crossed = False,
          device_open = False\<rparr>)"

subsection \<open>Runs of the pipeline\<close>

text \<open>
  The producer pushing a list of samples with no consumer in between, and
  a consumer popping \<open>n\<close> times with no producer in between; both keep
  every return value.
\<close>

fun put_all :: "simtemp_ringbuf \<Rightarrow> simtemp_sample list \<Rightarrow> int list \<times> simtemp_ringbuf" where
  "put_all rb [] = ([], rb)"
| "put_all rb (s # ss) =
     (case simtemp_ringbuf_put rb s of (ret, rb') \<Rightarrow>
        (case put_all rb' ss of (rets, rb'') \<Rightarrow> (ret # rets, rb'')))"

fun get_all :: "nat \<Rightarrow> simtemp_ringbuf \<Rightarrow> (int \<times> simtemp_sample option) list \<times> simtemp_ringbuf" where
  "get_all 0 rb = ([], rb)"
| "get_all (Suc n) rb =
     (case simtemp_ringbuf_get rb of (ret, rb', out) \<Rightarrow>
        (case get_all n rb' of (outs, rb'') \<Rightarrow> ((ret, out) # outs, rb'')))"

text \<open>A sequence of timer ticks, each with its random draw and clock reading.\<close>

fun run_ticks :: "(u32 \<times> u64) list \<Rightarrow> simtemp_device \<Rightarrow> simtemp_device" where
  "run_ticks [] dev = dev"
| "run_ticks ((random, now) # rest) dev = run_ticks rest (simtemp_timer_callback random now dev)"

text \<open>Three samples to run the queue on.\<close>

definition example_samples :: "simtemp_sample list" where
  "example_samples =
     [\<lparr>timestamp_ns = 10, temp_mC = 44000, flags = 1\<rparr>,
      \<lparr>timestamp_ns = 20, temp_mC = 46000, flags = 3\<rparr>,
      \<lparr>timestamp_ns = 30, temp_mC = 45500, flags = 1\<rparr>]"

text \<open>
  The device after 63 ticks from probe with no reader (Normal mode, every
  draw 0, so every sample is 43000 and below the threshold): its ring buffer
  is full.
\<close>

definition full_device :: simtemp_device where
  "full_device = run_ticks (replicate 63 (0, 0)) (simtemp_probe None None)"

text \<open>
  The callback with the generated temperature supplied from outside, run
  over a list of temperatures and clock readings: each step is
  \<open>threshold_check\<close> followed by \<open>enqueue_sample\<close>, as in
  \<open>simtemp_timer_callback\<close>. The result lists every emitted sample with the
  value of \<open>threshold_alerts\<close> after its tick.
\<close>

fun feed_temps :: "(s32 \<times> u64) list \<Rightarrow> simtemp_device \<Rightarrow> (simtemp_sample \<times> u64) list \<times> simtemp_device" where
  "feed_temps [] dev = ([], dev)"
| "feed_temps ((temp, now) # rest) dev =
     (case threshold_check temp now dev of (sample, d1) \<Rightarrow>
        (case enqueue_sample sample d1 of (ret, d2) \<Rightarrow>
           (case feed_temps rest d2 of (out, d3) \<Rightarrow>
              ((sample, threshold_alerts (stats d2)) # out, d3))))"

text \<open>The probed device switched to Noisy mode.\<close>

definition noisy_device :: simtemp_device where
  "noisy_device = (simtemp_probe None None)\<lparr>mode := SIMTEMP_MODE_NOISY\<rparr>"

text \<open>A sequence of generator calls, one random draw each, keeping every value.\<close>

fun generate_all :: "u32 list \<Rightarrow> simtemp_device \<Rightarrow> s32 list \<times> simtemp_device" where
  "generate_all [] dev = ([], dev)"
| "generate_all (r # rs) dev =
     (case simtemp_generate_temperature r dev of (t, d) \<Rightarrow>
        (case generate_all rs d of (ts, d') \<Rightarrow> (t # ts, d')))"

text \<open>
  The triangular wave as the specification words it, for comparison with
  the generator: from 40000 upwards in steps of 500 to 70000 (tick 60), down
  to 30000 (tick 140), up again, with period 160; \<open>spec_ramp_up\<close> is the
  direction after tick \<open>k\<close>.
\<close>

definition spec_ramp_wave :: "nat \<Rightarrow> int" where
  "spec_ramp_wave k =
     (let j = int (k mod 160)
      in if j \<le> 60 then 40000 + 500 * j
         else if j \<le> 140 then 70000 - 500 * (j - 60)
         else 30000 + 500 * (j - 140))"

definition spec_ramp_up :: "nat \<Rightarrow> bool" where
  "spec_ramp_up k = (k mod 160 < 60 \<or> 140 \<le> k mod 160)"

text \<open>The probed device switched to Ramp mode, and to a mode value outside the enum.\<close>

definition ramp_device :: simtemp_device where
  "ramp_device = (simtemp_probe None None)\<lparr>mode := SIMTEMP_MODE_RAMP\<rparr>"

definition unknown_mode_device :: simtemp_device where
  "unknown_mode_device = (simtemp_probe None None)\<lparr>mode := 7\<rparr>"

text \<open>
  The generator's invariant: the stored ramp temperature is between the two
  bounds. Probe establishes it and every generator call keeps it.
\<close>

definition gen_inv :: "simtemp_device \<Rightarrow> bool" where
  "gen_inv dev = (30000 \<le> sint (current_temp_mC dev) \<and> sint (current_temp_mC dev) \<le> 70000)"

text \<open>The device after the first tick from probe: one sample is queued.\<close>

definition one_sample_device :: simtemp_device where
  "one_sample_device = simtemp_timer_callback 0 0 (simtemp_probe None None)"

text \<open>
  The devices the driver can be in: the probed one, and whatever the timer
  callback, the sysfs stores and a completed read make of it. A write to the
  mode attribute sets one of the three enumerators; the rule below allows
  any value of the field, so that an unrecognised mode is covered as well.
\<close>

inductive reachable :: "simtemp_device \<Rightarrow> bool" where
  probe: "reachable (simtemp_probe dt_sampling dt_threshold)"
| tick: "reachable d \<Longrightarrow> reachable (simtemp_timer_callback random now d)"
| store_period: "reachable d \<Longrightarrow> reachable (snd (sampling_ms_store buf count d))"
| store_threshold: "reachable d \<Longrightarrow> reachable (snd (threshold_mC_store buf count d))"
| set_mode: "reachable d \<Longrightarrow> reachable (d\<lparr>mode := m\<rparr>)"
| read: "reachable d \<Longrightarrow>
         simtemp_read nonblock count signal_pending copy_fault d = Some (ret, d', out) \<Longrightarrow>
         reachable d'"

subsection \<open>Abstraction of the ring buffer\<close>

text \<open>
  The indices of a well-formed buffer are inside the array; \<^verbatim>\<open>simtemp_ringbuf_init\<close>
  establishes this and put and get keep it. The queue a buffer holds is read
  from \<open>tail\<close> upwards, \<^verbatim>\<open>simtemp_ringbuf_count\<close> entries long.
\<close>

definition rb_wf :: "simtemp_ringbuf \<Rightarrow> bool" where
  "rb_wf rb =
     (length (buffer rb) = RING_BUFFER_SIZE \<and> unat (head rb) < RING_BUFFER_SIZE
      \<and> unat (tail rb) < RING_BUFFER_SIZE)"

definition rb_contents :: "simtemp_ringbuf \<Rightarrow> simtemp_sample list" where
  "rb_contents rb =
     map (\<lambda>i. buffer rb ! ((unat (tail rb) + i) mod RING_BUFFER_SIZE))
       [0..<unat (simtemp_ringbuf_count rb)]"

section \<open>Proofs\<close>

subsection \<open>Index arithmetic\<close>

lemma and63: "unat ((x::32 word) AND 63) = unat x mod 64"
proof -
  have "x AND 63 = x mod 64"
    using word_mod_2p_is_mask [of 6 x] by (simp add: mask_eq_exp_minus_1)
  then show ?thesis by (simp add: unat_mod_distrib)
qed

lemma unat_next: "unat (h::32 word) < 64 \<Longrightarrow> unat ((h + 1) AND 63) = Suc (unat h) mod 64"
  by (simp add: and63 unat_word_ariths)

lemma unat_diff_mask:
  assumes h: "unat (h::32 word) < 64" and t: "unat (t::32 word) < 64"
  shows "unat ((h - t) AND 63) = (unat h + 64 - unat t) mod 64"
proof (cases "unat t \<le> unat h")
  case True
  then have "unat (h - t) = unat h - unat t" by (simp add: unat_sub_if')
  moreover have "unat h + 64 - unat t = (unat h - unat t) + 1 * 64"
    using True by simp
  then have "(unat h + 64 - unat t) mod 64 = (unat h - unat t) mod 64"
    by (metis mod_mult_self1)
  ultimately show ?thesis by (simp add: and63)
next
  case False
  then have "unat (h - t) = unat h + 4294967296 - unat t" by (simp add: unat_sub_if')
  moreover have "(unat h + 4294967296 - unat t) = (unat h + 64 - unat t) + 67108863 * 64"
    using False h t by simp
  then have "(unat h + 4294967296 - unat t) mod 64 = (unat h + 64 - unat t) mod 64"
    by (metis mod_mult_self1)
  ultimately show ?thesis by (simp add: and63)
qed

lemma count_nat:
  "rb_wf rb \<Longrightarrow> unat (simtemp_ringbuf_count rb) = (unat (head rb) + 64 - unat (tail rb)) mod 64"
  by (simp add: rb_wf_def simtemp_ringbuf_count_def RING_BUFFER_MASK_def RING_BUFFER_SIZE_def
      unat_diff_mask)

lemma length_rb_contents: "length (rb_contents rb) = unat (simtemp_ringbuf_count rb)"
  by (simp add: rb_contents_def)

lemma mod64_small: "a < 128 \<Longrightarrow> a mod 64 = (if a < 64 then a else a - (64::nat))"
  by (simp add: mod_if)

lemma full_iff_nat:
  "h < 64 \<Longrightarrow> t < 64 \<Longrightarrow> (Suc h mod 64 = t) = ((h + 64 - t) mod 64 = (63::nat))"
  by (auto simp add: mod64_small split: if_splits)

lemma count_after_put:
  "h < 64 \<Longrightarrow> t < 64 \<Longrightarrow> (h + 64 - t) mod 64 < (63::nat) \<Longrightarrow>
     (Suc h mod 64 + 64 - t) mod 64 = Suc ((h + 64 - t) mod 64)"
  by (auto simp add: mod64_small split: if_splits)

lemma slot_of_head: "h < 64 \<Longrightarrow> t < 64 \<Longrightarrow> (t + (h + 64 - t) mod 64) mod 64 = (h::nat)"
  by (auto simp add: mod64_small split: if_splits)

lemma slot_not_head:
  "h < 64 \<Longrightarrow> t < 64 \<Longrightarrow> i < (h + 64 - t) mod 64 \<Longrightarrow> (t + i) mod 64 \<noteq> (h::nat)"
  by (auto simp add: mod64_small split: if_splits)

lemma count_after_get:
  "h < 64 \<Longrightarrow> t < 64 \<Longrightarrow> h \<noteq> t \<Longrightarrow>
     (h + 64 - Suc t mod 64) mod 64 = (h + 64 - t) mod 64 - (1::nat)"
  by (auto simp add: mod64_small split: if_splits)

lemma empty_iff_nat: "h < 64 \<Longrightarrow> t < 64 \<Longrightarrow> (h = t) = ((h + 64 - t) mod 64 = (0::nat))"
  by (auto simp add: mod64_small split: if_splits)

lemma slot_shift: "(Suc t mod 64 + i) mod 64 = Suc (t + i) mod (64::nat)"
  by (simp add: mod_add_left_eq)

subsection \<open>One push, one pop\<close>

lemma put_full:
  assumes "rb_wf rb" and "unat (simtemp_ringbuf_count rb) = 63"
  shows "simtemp_ringbuf_put rb s = (- ENOSPC, rb)"
proof -
  have h: "unat (head rb) < 64" and t: "unat (tail rb) < 64"
    using assms(1) by (simp_all add: rb_wf_def RING_BUFFER_SIZE_def)
  have "unat ((head rb + 1) AND 63) = unat (tail rb)"
    using assms h t by (simp add: unat_next count_nat full_iff_nat)
  then have "(head rb + 1) AND 63 = tail rb"
    by (simp add: word_unat_eq_iff)
  then show ?thesis
    by (simp add: simtemp_ringbuf_put_def RING_BUFFER_MASK_def Let_def)
qed

lemma put_ok:
  assumes wf: "rb_wf rb" and c: "unat (simtemp_ringbuf_count rb) < 63"
  shows "fst (simtemp_ringbuf_put rb s) = 0"
    and "rb_wf (snd (simtemp_ringbuf_put rb s))"
    and "rb_contents (snd (simtemp_ringbuf_put rb s)) = rb_contents rb @ [s]"
proof -
  let ?h = "unat (head rb)" and ?t = "unat (tail rb)"
  let ?c = "(?h + 64 - ?t) mod 64"
  let ?rb' = "rb\<lparr>buffer := (buffer rb)[?h := s], head := (head rb + 1) AND 63\<rparr>"
  have h: "?h < 64" and t: "?t < 64" and len: "length (buffer rb) = 64"
    using wf by (simp_all add: rb_wf_def RING_BUFFER_SIZE_def)
  have cn: "unat (simtemp_ringbuf_count rb) = ?c" using wf by (rule count_nat)
  have "unat ((head rb + 1) AND 63) \<noteq> ?t"
    using c h t by (simp add: unat_next cn full_iff_nat)
  then have ne: "(head rb + 1) AND 63 \<noteq> tail rb" by auto
  then have put: "simtemp_ringbuf_put rb s = (0, ?rb')"
    by (simp add: simtemp_ringbuf_put_def RING_BUFFER_MASK_def Let_def)
  show "fst (simtemp_ringbuf_put rb s) = 0" by (simp add: put)
  have nh: "unat ((head rb + 1) AND 63) = Suc ?h mod 64" using h by (simp add: unat_next)
  show wf': "rb_wf (snd (simtemp_ringbuf_put rb s))"
    using t len by (simp add: put rb_wf_def RING_BUFFER_SIZE_def nh)
  have cn': "unat (simtemp_ringbuf_count ?rb') = Suc ?c"
    using count_nat [OF wf' [unfolded put snd_conv]] nh count_after_put [OF h t] c cn by simp
  have last: "(buffer rb)[?h := s] ! ((?t + ?c) mod 64) = s"
    using h t len by (simp add: slot_of_head)
  have pre: "map (\<lambda>i. (buffer rb)[?h := s] ! ((?t + i) mod 64)) [0..<?c]
           = map (\<lambda>i. buffer rb ! ((?t + i) mod 64)) [0..<?c]"
  proof (intro map_cong refl)
    fix i assume "i \<in> set [0..<?c]"
    then have "?h \<noteq> (?t + i) mod 64" using slot_not_head [OF h t, of i] by auto
    then show "(buffer rb)[?h := s] ! ((?t + i) mod 64) = buffer rb ! ((?t + i) mod 64)"
      by (rule nth_list_update_neq)
  qed
  show "rb_contents (snd (simtemp_ringbuf_put rb s)) = rb_contents rb @ [s]"
    unfolding put snd_conv rb_contents_def cn' cn
    using last pre by (simp add: RING_BUFFER_SIZE_def)
qed

lemma empty_iff_contents:
  assumes "rb_wf rb"
  shows "simtemp_ringbuf_empty rb \<longleftrightarrow> rb_contents rb = []"
proof -
  have h: "unat (head rb) < 64" and t: "unat (tail rb) < 64"
    using assms by (simp_all add: rb_wf_def RING_BUFFER_SIZE_def)
  have "rb_contents rb = [] \<longleftrightarrow> unat (simtemp_ringbuf_count rb) = 0"
    using length_rb_contents [of rb] by auto
  also have "\<dots> \<longleftrightarrow> unat (head rb) = unat (tail rb)"
    using empty_iff_nat [OF h t] by (simp add: count_nat [OF assms])
  also have "\<dots> \<longleftrightarrow> head rb = tail rb" by (simp add: word_unat_eq_iff)
  finally show ?thesis by (simp add: simtemp_ringbuf_empty_def)
qed

lemma get_ok:
  assumes wf: "rb_wf rb" and c: "rb_contents rb = x # xs"
  shows "fst (simtemp_ringbuf_get rb) = 0"
    and "snd (snd (simtemp_ringbuf_get rb)) = Some x"
    and "rb_wf (fst (snd (simtemp_ringbuf_get rb)))"
    and "rb_contents (fst (snd (simtemp_ringbuf_get rb))) = xs"
proof -
  let ?h = "unat (head rb)" and ?t = "unat (tail rb)"
  let ?c = "(?h + 64 - ?t) mod 64"
  let ?rb' = "rb\<lparr>tail := (tail rb + 1) AND 63\<rparr>"
  have h: "?h < 64" and t: "?t < 64" and len: "length (buffer rb) = 64"
    using wf by (simp_all add: rb_wf_def RING_BUFFER_SIZE_def)
  have cn: "unat (simtemp_ringbuf_count rb) = ?c" using wf by (rule count_nat)
  have c0: "?c = Suc (length xs)" using c length_rb_contents [of rb] cn by simp
  then have "?h \<noteq> ?t" using empty_iff_nat [OF h t] by auto
  then have ne: "head rb \<noteq> tail rb" by auto
  then have get: "simtemp_ringbuf_get rb = (0, ?rb', Some (buffer rb ! ?t))"
    by (simp add: simtemp_ringbuf_get_def simtemp_ringbuf_empty_def RING_BUFFER_MASK_def Let_def)
  have all: "map (\<lambda>i. buffer rb ! ((?t + i) mod 64)) [0..<Suc (length xs)] = x # xs"
    using c unfolding rb_contents_def cn c0 by (simp add: RING_BUFFER_SIZE_def)
  have up: "[0..<Suc (length xs)] = 0 # map Suc [0..<length xs]"
    by (simp add: upt_conv_Cons map_Suc_upt del: upt_Suc)
  have x: "buffer rb ! ?t = x"
    using all t unfolding up by simp
  have xs: "map (\<lambda>i. buffer rb ! (Suc (?t + i) mod 64)) [0..<length xs] = xs"
    using all unfolding up by (simp add: comp_def)
  show "fst (simtemp_ringbuf_get rb) = 0" by (simp add: get)
  show "snd (snd (simtemp_ringbuf_get rb)) = Some x" by (simp add: get x)
  have nt: "unat ((tail rb + 1) AND 63) = Suc ?t mod 64" using t by (simp add: unat_next)
  show wf': "rb_wf (fst (snd (simtemp_ringbuf_get rb)))"
    using h len by (simp add: get rb_wf_def RING_BUFFER_SIZE_def nt)
  have cn': "unat (simtemp_ringbuf_count ?rb') = length xs"
    using count_nat [OF wf' [unfolded get snd_conv fst_conv]] nt
      count_after_get [OF h t \<open>?h \<noteq> ?t\<close>] c0 by simp
  show "rb_contents (fst (snd (simtemp_ringbuf_get rb))) = xs"
    unfolding get snd_conv fst_conv rb_contents_def cn'
    using xs by (simp add: RING_BUFFER_SIZE_def nt slot_shift del: upt_Suc)
qed

subsection \<open>Many pushes, many pops\<close>

lemma rb_contents_le: "rb_wf rb \<Longrightarrow> length (rb_contents rb) \<le> 63"
proof -
  assume "rb_wf rb"
  then have "length (rb_contents rb) = (unat (head rb) + 64 - unat (tail rb)) mod 64"
    by (simp add: length_rb_contents count_nat)
  also have "\<dots> < 64" by simp
  finally show ?thesis by simp
qed

lemma put_all_contents:
  "rb_wf rb \<Longrightarrow>
     fst (put_all rb xs) =
       replicate (min (63 - length (rb_contents rb)) (length xs)) 0 @
       replicate (length xs - (63 - length (rb_contents rb))) (- ENOSPC)
     \<and> rb_wf (snd (put_all rb xs))
     \<and> rb_contents (snd (put_all rb xs)) = rb_contents rb @ take (63 - length (rb_contents rb)) xs"
proof (induction xs arbitrary: rb)
  case Nil
  then show ?case by simp
next
  case (Cons x xs)
  let ?n = "length (rb_contents rb)"
  show ?case
  proof (cases "?n < 63")
    case True
    have c: "unat (simtemp_ringbuf_count rb) < 63" using True by (simp add: length_rb_contents)
    obtain rb1 where p: "simtemp_ringbuf_put rb x = (0, rb1)"
      using put_ok(1) [OF Cons.prems c, of x] by (cases "simtemp_ringbuf_put rb x") simp
    have wf1: "rb_wf rb1" using put_ok(2) [OF Cons.prems c, of x] by (simp add: p)
    have c1: "rb_contents rb1 = rb_contents rb @ [x]"
      using put_ok(3) [OF Cons.prems c, of x] by (simp add: p)
    have k: "63 - ?n = Suc (63 - length (rb_contents rb1))" using True c1 by simp
    from Cons.IH [OF wf1] show ?thesis
      unfolding k using c1 by (simp add: p case_prod_beta)
  next
    case False
    then have n: "?n = 63" using rb_contents_le [OF Cons.prems] by simp
    then have p: "simtemp_ringbuf_put rb x = (- ENOSPC, rb)"
      using put_full [OF Cons.prems] by (simp add: length_rb_contents)
    from Cons.IH [OF Cons.prems] show ?thesis
      using n by (simp add: p case_prod_beta)
  qed
qed

lemma get_all_contents:
  "rb_wf rb \<Longrightarrow> n \<le> length (rb_contents rb) \<Longrightarrow>
     fst (get_all n rb) = map (\<lambda>x. (0, Some x)) (take n (rb_contents rb))
     \<and> rb_wf (snd (get_all n rb))
     \<and> rb_contents (snd (get_all n rb)) = drop n (rb_contents rb)"
proof (induction n arbitrary: rb)
  case 0
  then show ?case by simp
next
  case (Suc n)
  then obtain x xs where c: "rb_contents rb = x # xs"
    by (cases "rb_contents rb") auto
  obtain rb1 where g: "simtemp_ringbuf_get rb = (0, rb1, Some x)"
    using get_ok(1,2) [OF Suc.prems(1) c] by (cases "simtemp_ringbuf_get rb") simp
  have wf1: "rb_wf rb1" using get_ok(3) [OF Suc.prems(1) c] by (simp add: g)
  have c1: "rb_contents rb1 = xs" using get_ok(4) [OF Suc.prems(1) c] by (simp add: g)
  have "n \<le> length (rb_contents rb1)" using Suc.prems(2) c c1 by simp
  from Suc.IH [OF wf1 this] show ?case
    using c c1 by (simp add: g case_prod_beta)
qed

lemma rb_wf_init: "rb_wf simtemp_ringbuf_init"
  by (simp add: rb_wf_def simtemp_ringbuf_init_def RING_BUFFER_SIZE_def)

lemma empty_init: "simtemp_ringbuf_empty simtemp_ringbuf_init"
  by (simp add: simtemp_ringbuf_empty_def simtemp_ringbuf_init_def)

text \<open>
  C4. Any \<open>N \<le> 63\<close> pushes into an empty ring buffer followed by \<open>N\<close>
  pops, with nothing in between: every push returns 0, every pop returns 0, and
  the popped samples are the pushed ones in push order; the buffer is empty
  again afterwards.
\<close>

theorem fifo_order:
  assumes "rb_wf rb" and "simtemp_ringbuf_empty rb" and "length xs \<le> 63"
  shows "fst (put_all rb xs) = replicate (length xs) 0
     \<and> fst (get_all (length xs) (snd (put_all rb xs))) = map (\<lambda>x. (0, Some x)) xs
     \<and> simtemp_ringbuf_empty (snd (get_all (length xs) (snd (put_all rb xs))))"
proof -
  have e: "rb_contents rb = []" using assms(1,2) by (simp add: empty_iff_contents)
  note p = put_all_contents [OF assms(1), of xs, unfolded e]
  have c1: "rb_contents (snd (put_all rb xs)) = xs" using p assms(3) by simp
  have wf1: "rb_wf (snd (put_all rb xs))" using p by simp
  note g = get_all_contents [OF wf1, of "length xs", unfolded c1]
  have "rb_contents (snd (get_all (length xs) (snd (put_all rb xs)))) = []" using g by simp
  then have "simtemp_ringbuf_empty (snd (get_all (length xs) (snd (put_all rb xs))))"
    using g by (simp add: empty_iff_contents)
  then show ?thesis using p g assms(3) by simp
qed

theorem fifo_order_witness:
  "rb_wf simtemp_ringbuf_init \<and> simtemp_ringbuf_empty simtemp_ringbuf_init
   \<and> length example_samples \<le> 63
   \<and> fst (put_all simtemp_ringbuf_init example_samples) = [0, 0, 0]
   \<and> fst (get_all 3 (snd (put_all simtemp_ringbuf_init example_samples))) =
       map (\<lambda>x. (0, Some x)) example_samples"
proof -
  have len: "length example_samples = 3" by (simp add: example_samples_def)
  then have le: "length example_samples \<le> 63" by simp
  show ?thesis
    using fifo_order [OF rb_wf_init empty_init le] rb_wf_init empty_init
    by (simp add: len numeral_3_eq_3)
qed

subsection \<open>Overflow\<close>

lemma enqueue_stats:
  "stats (snd (enqueue_sample s d)) = (stats d)\<lparr>total_samples := total_samples (stats d) + 1\<rparr>"
  by (simp add: enqueue_sample_def Let_def split: prod.splits)

lemma enqueue_ret:
  "fst (enqueue_sample s d) = fst (simtemp_ringbuf_put (ringbuf d) s)
   \<and> ringbuf (snd (enqueue_sample s d)) = snd (simtemp_ringbuf_put (ringbuf d) s)"
  by (simp add: enqueue_sample_def Let_def split: prod.splits)

lemma generate_keeps_latch:
  "threshold_mC (snd (simtemp_generate_temperature r d)) = threshold_mC d
   \<and> threshold_crossed (snd (simtemp_generate_temperature r d)) = threshold_crossed d
   \<and> stats (snd (simtemp_generate_temperature r d)) = stats d
   \<and> ringbuf (snd (simtemp_generate_temperature r d)) = ringbuf d"
  by (simp add: simtemp_generate_temperature_def Let_def)

lemma generate_ignores_ringbuf:
  "simtemp_generate_temperature r (d\<lparr>ringbuf := rb\<rparr>) =
     (fst (simtemp_generate_temperature r d), (snd (simtemp_generate_temperature r d))\<lparr>ringbuf := rb\<rparr>)"
  by (simp add: simtemp_generate_temperature_def Let_def)

lemma check_ignores_ringbuf:
  "threshold_check t now (d\<lparr>ringbuf := rb\<rparr>) =
     (fst (threshold_check t now d), (snd (threshold_check t now d))\<lparr>ringbuf := rb\<rparr>)"
  by (simp add: threshold_check_def Let_def)

lemma check_stats:
  "stats (snd (threshold_check t now d)) =
     (stats d)\<lparr>threshold_alerts := threshold_alerts (stats d) +
        (if threshold_mC d <s t \<and> \<not> threshold_crossed d then 1 else 0)\<rparr>
   \<and> ringbuf (snd (threshold_check t now d)) = ringbuf d"
  by (simp add: threshold_check_def Let_def)

lemma tick_stats:
  "stats (simtemp_timer_callback r now d) =
     (stats d)\<lparr>threshold_alerts := threshold_alerts (stats d) +
        (if threshold_mC d <s fst (simtemp_generate_temperature r d) \<and> \<not> threshold_crossed d
         then 1 else 0),
       total_samples := total_samples (stats d) + 1\<rparr>"
  by (simp add: simtemp_timer_callback_def case_prod_beta enqueue_stats check_stats
      generate_keeps_latch)

lemma tick_ringbuf:
  "ringbuf (simtemp_timer_callback r now d) =
     snd (simtemp_ringbuf_put (ringbuf d)
            (fst (threshold_check (fst (simtemp_generate_temperature r d)) now
                    (snd (simtemp_generate_temperature r d)))))"
  by (simp add: simtemp_timer_callback_def case_prod_beta enqueue_ret check_stats
      generate_keeps_latch)

lemma tick_stats_any_ringbuf:
  "stats (simtemp_timer_callback r now (d\<lparr>ringbuf := rb\<rparr>)) = stats (simtemp_timer_callback r now d)"
  by (simp add: tick_stats generate_ignores_ringbuf)

text \<open>The full device, computed once.\<close>

lemma full_device_eq:
  "full_device =
     \<lparr>timer = Timer_armed 100000000,
      sampling_period = 100000000,
      ringbuf =
        \<lparr>buffer = replicate 63 \<lparr>timestamp_ns = 0, temp_mC = 43000, flags = 1\<rparr> @ [zero_sample],
         head = 63, tail = 0\<rparr>,
      sampling_ms = 100,
      threshold_mC = 45000,
      mode = SIMTEMP_MODE_NORMAL,
      current_temp_mC = 40000,
      ramp_direction = True,
      stats = \<lparr>total_samples = 63, threshold_alerts = 0, read_count = 0, poll_count = 0,
                last_error = 0\<rparr>,
      threshold_crossed = False,
      device_open = False\<rparr>"
  by code_simp

text \<open>
  C1, as stated, asks for a drop indicator that increments when the producer
  finds the buffer full. The device has none: the 64th tick on
  \<open>full_device\<close> leaves the ring buffer as it was (the sample is dropped),
  and the statistics go from 63 to 64 total samples with every other counter
  as before (this sample is below the threshold). Ring buffer aside, the
  whole device is the one the same tick produces when the buffer has room and
  the sample is queued.
\<close>

theorem drop_indicator_counterexample:
  "ringbuf (simtemp_timer_callback 0 0 full_device) = ringbuf full_device
   \<and> stats full_device =
       \<lparr>total_samples = 63, threshold_alerts = 0, read_count = 0, poll_count = 0, last_error = 0\<rparr>
   \<and> stats (simtemp_timer_callback 0 0 full_device) =
       \<lparr>total_samples = 64, threshold_alerts = 0, read_count = 0, poll_count = 0, last_error = 0\<rparr>
   \<and> (simtemp_timer_callback 0 0 full_device)\<lparr>ringbuf := simtemp_ringbuf_init\<rparr> =
       (simtemp_timer_callback 0 0 (full_device\<lparr>ringbuf := simtemp_ringbuf_init\<rparr>))
         \<lparr>ringbuf := simtemp_ringbuf_init\<rparr>
   \<and> rb_contents (ringbuf (simtemp_timer_callback 0 0 (full_device\<lparr>ringbuf := simtemp_ringbuf_init\<rparr>)))
      = [\<lparr>timestamp_ns = 0, temp_mC = 43000, flags = 1\<rparr>]"
  unfolding full_device_eq by code_simp

text \<open>
  C1, amended. Pushing into a ring buffer that holds 63 samples returns
  \<^verbatim>\<open>-ENOSPC\<close> and leaves the buffer exactly as it was, so the incoming sample
  is dropped and the oldest entry stays; the timer tick that meets a full
  buffer leaves the ring buffer unchanged. No counter records the drop: the
  statistics after such a tick are the ones the same tick produces with any
  other ring buffer, that is \<open>total_samples\<close> plus one, \<open>threshold_alerts\<close>
  plus one exactly when the generated temperature crosses the threshold
  upwards, and the other counters untouched. 70 pushes into the empty buffer
  with no pop: the first 63 return 0, the last 7 return \<^verbatim>\<open>-ENOSPC\<close>, and the
  buffer holds the first 63 samples in push order.
\<close>

theorem overflow_drops_incoming:
  assumes "rb_wf (ringbuf dev)" and "unat (simtemp_ringbuf_count (ringbuf dev)) = 63"
    and "length xs = 70"
  shows "simtemp_ringbuf_put (ringbuf dev) s = (- ENOSPC, ringbuf dev)
     \<and> fst (enqueue_sample s dev) = - ENOSPC
     \<and> ringbuf (snd (enqueue_sample s dev)) = ringbuf dev
     \<and> ringbuf (simtemp_timer_callback random now dev) = ringbuf dev
     \<and> stats (simtemp_timer_callback random now dev) =
         stats (simtemp_timer_callback random now (dev\<lparr>ringbuf := rb\<rparr>))
     \<and> stats (simtemp_timer_callback random now dev) =
         (stats dev)\<lparr>threshold_alerts := threshold_alerts (stats dev) +
            (if threshold_mC dev <s fst (simtemp_generate_temperature random dev)
                \<and> \<not> threshold_crossed dev
             then 1 else 0),
           total_samples := total_samples (stats dev) + 1\<rparr>
     \<and> fst (put_all simtemp_ringbuf_init xs) = replicate 63 0 @ replicate 7 (- ENOSPC)
     \<and> rb_contents (snd (put_all simtemp_ringbuf_init xs)) = take 63 xs
     \<and> simtemp_ringbuf_count (snd (put_all simtemp_ringbuf_init xs)) = 63"
proof -
  have full: "\<And>s. simtemp_ringbuf_put (ringbuf dev) s = (- ENOSPC, ringbuf dev)"
    using assms(1,2) by (rule put_full)
  have tick: "ringbuf (simtemp_timer_callback random now dev) = ringbuf dev"
    by (simp add: tick_ringbuf full)
  have e: "rb_contents simtemp_ringbuf_init = []"
    using rb_wf_init empty_init by (simp add: empty_iff_contents)
  note p = put_all_contents [OF rb_wf_init, of xs, unfolded e]
  have rets: "fst (put_all simtemp_ringbuf_init xs) = replicate 63 0 @ replicate 7 (- ENOSPC)"
    using p assms(3) by simp
  have cont: "rb_contents (snd (put_all simtemp_ringbuf_init xs)) = take 63 xs"
    using p by simp
  then have "unat (simtemp_ringbuf_count (snd (put_all simtemp_ringbuf_init xs))) = 63"
    using assms(3) length_rb_contents [of "snd (put_all simtemp_ringbuf_init xs)"] by simp
  then have cnt: "simtemp_ringbuf_count (snd (put_all simtemp_ringbuf_init xs)) = 63"
    by (simp add: word_unat_eq_iff)
  have st: "stats (simtemp_timer_callback random now dev) =
         stats (simtemp_timer_callback random now (dev\<lparr>ringbuf := rb\<rparr>))"
    by (simp add: tick_stats_any_ringbuf)
  show ?thesis
    using full [of s] tick st tick_stats [of random now dev] rets cont cnt
    by (simp add: enqueue_ret)
qed

theorem overflow_drops_incoming_witness:
  "rb_wf (ringbuf full_device) \<and> unat (simtemp_ringbuf_count (ringbuf full_device)) = 63
   \<and> length (replicate 70 zero_sample) = 70
   \<and> fst (enqueue_sample zero_sample full_device) = - ENOSPC
   \<and> ringbuf (snd (enqueue_sample zero_sample full_device)) = ringbuf full_device
   \<and> ringbuf (simtemp_timer_callback 20000 7 (full_device\<lparr>mode := SIMTEMP_MODE_NOISY\<rparr>)) =
       ringbuf full_device
   \<and> stats (simtemp_timer_callback 20000 7 (full_device\<lparr>mode := SIMTEMP_MODE_NOISY\<rparr>)) =
       \<lparr>total_samples = 64, threshold_alerts = 1, read_count = 0, poll_count = 0, last_error = 0\<rparr>
   \<and> fst (put_all simtemp_ringbuf_init (replicate 70 zero_sample)) =
       replicate 63 0 @ replicate 7 (- ENOSPC)
   \<and> simtemp_ringbuf_count (snd (put_all simtemp_ringbuf_init (replicate 70 zero_sample))) = 63"
proof -
  have wf: "rb_wf (ringbuf full_device)" unfolding full_device_eq by code_simp
  have c: "unat (simtemp_ringbuf_count (ringbuf full_device)) = 63"
    unfolding full_device_eq by code_simp
  have l: "length (replicate 70 zero_sample) = 70" by simp
  have wf': "rb_wf (ringbuf (full_device\<lparr>mode := SIMTEMP_MODE_NOISY\<rparr>))" using wf by simp
  have c': "unat (simtemp_ringbuf_count (ringbuf (full_device\<lparr>mode := SIMTEMP_MODE_NOISY\<rparr>))) = 63"
    using c by simp
  have g: "fst (simtemp_generate_temperature 20000 (full_device\<lparr>mode := SIMTEMP_MODE_NOISY\<rparr>)) = 50000"
    unfolding full_device_eq by code_simp
  have f: "threshold_mC full_device = 45000" "\<not> threshold_crossed full_device"
    "stats full_device =
       \<lparr>total_samples = 63, threshold_alerts = 0, read_count = 0, poll_count = 0, last_error = 0\<rparr>"
    unfolding full_device_eq by simp_all
  have lt: "(45000::s32) <s 50000" by (simp add: word_sless_alt)
  note a = overflow_drops_incoming [OF wf c l, where s = zero_sample]
  note b = overflow_drops_incoming [OF wf' c' l, where random = 20000 and now = 7]
  have t1: "ringbuf (simtemp_timer_callback 20000 7 (full_device\<lparr>mode := SIMTEMP_MODE_NOISY\<rparr>)) =
       ringbuf full_device"
    using b by simp
  have t2: "stats (simtemp_timer_callback 20000 7 (full_device\<lparr>mode := SIMTEMP_MODE_NOISY\<rparr>)) =
       \<lparr>total_samples = 64, threshold_alerts = 1, read_count = 0, poll_count = 0, last_error = 0\<rparr>"
    using b [THEN conjunct2, THEN conjunct2, THEN conjunct2, THEN conjunct2, THEN conjunct2,
        THEN conjunct1]
    by (simp add: g f lt)
  show ?thesis
    using a t1 t2 wf c l by blast
qed

subsection \<open>The threshold latch\<close>

lemma tick_is_feed:
  "simtemp_timer_callback random now dev =
     snd (feed_temps [(fst (simtemp_generate_temperature random dev), now)]
            (snd (simtemp_generate_temperature random dev)))"
  by (simp add: simtemp_timer_callback_def split: prod.splits)

lemma enqueue_keeps:
  "threshold_mC (snd (enqueue_sample s d)) = threshold_mC d
   \<and> threshold_crossed (snd (enqueue_sample s d)) = threshold_crossed d
   \<and> threshold_alerts (stats (snd (enqueue_sample s d))) = threshold_alerts (stats d)"
  by (simp add: enqueue_sample_def Let_def split: prod.splits)

lemma feed_step:
  "feed_temps ((temp, now) # rest) dev =
     ((fst (threshold_check temp now dev),
       threshold_alerts (stats (snd (threshold_check temp now dev)))) #
      fst (feed_temps rest (snd (enqueue_sample (fst (threshold_check temp now dev))
                                   (snd (threshold_check temp now dev))))),
      snd (feed_temps rest (snd (enqueue_sample (fst (threshold_check temp now dev))
                                   (snd (threshold_check temp now dev))))))"
  by (simp add: enqueue_keeps split: prod.splits) (metis enqueue_keeps snd_conv)

lemma check_above_fire:
  "threshold_mC dev <s temp \<Longrightarrow> \<not> threshold_crossed dev \<Longrightarrow>
   threshold_check temp now dev =
     (\<lparr>timestamp_ns = now, temp_mC = temp,
        flags = SIMTEMP_FLAG_NEW_SAMPLE OR SIMTEMP_FLAG_THRESHOLD_CROSSED\<rparr>,
      dev\<lparr>threshold_crossed := True,
          stats := (stats dev)\<lparr>threshold_alerts := threshold_alerts (stats dev) + 1\<rparr>\<rparr>)"
  by (simp add: threshold_check_def)

lemma check_above_held:
  "threshold_mC dev <s temp \<Longrightarrow> threshold_crossed dev \<Longrightarrow>
   threshold_check temp now dev =
     (\<lparr>timestamp_ns = now, temp_mC = temp, flags = SIMTEMP_FLAG_NEW_SAMPLE\<rparr>, dev)"
  by (simp add: threshold_check_def)

lemma check_below:
  "\<not> threshold_mC dev <s temp \<Longrightarrow>
   threshold_check temp now dev =
     (\<lparr>timestamp_ns = now, temp_mC = temp, flags = SIMTEMP_FLAG_NEW_SAMPLE\<rparr>,
      dev\<lparr>threshold_crossed := False\<rparr>)"
  by (simp add: threshold_check_def)

text \<open>
  C2. With threshold 45000 and the latch clear, feeding the temperatures
  40000, 46000, 47000, 44000, 46000 emits five samples of which exactly the
  second and the fifth carry the threshold-crossed flag, and \<open>threshold_alerts\<close>
  goes up by one exactly on those two ticks.
\<close>

theorem latch_single_fire:
  assumes "threshold_mC dev = 45000" and "\<not> threshold_crossed dev"
  shows "map (\<lambda>(s, a). (temp_mC s, flags s, a))
           (fst (feed_temps [(40000, t1), (46000, t2), (47000, t3), (44000, t4), (46000, t5)] dev)) =
         [(40000, SIMTEMP_FLAG_NEW_SAMPLE, threshold_alerts (stats dev)),
          (46000, SIMTEMP_FLAG_NEW_SAMPLE OR SIMTEMP_FLAG_THRESHOLD_CROSSED,
             threshold_alerts (stats dev) + 1),
          (47000, SIMTEMP_FLAG_NEW_SAMPLE, threshold_alerts (stats dev) + 1),
          (44000, SIMTEMP_FLAG_NEW_SAMPLE, threshold_alerts (stats dev) + 1),
          (46000, SIMTEMP_FLAG_NEW_SAMPLE OR SIMTEMP_FLAG_THRESHOLD_CROSSED,
             threshold_alerts (stats dev) + 2)]"
proof -
  have c: "\<not> (45000 :: s32) <s 40000" "(45000 :: s32) <s 46000" "(45000 :: s32) <s 47000"
    "\<not> (45000 :: s32) <s 44000"
    by (simp_all add: word_sless_alt)
  show ?thesis
    using assms
    by (simp add: feed_step check_above_fire check_above_held check_below enqueue_keeps c
        del: feed_temps.simps(2))
qed


theorem latch_single_fire_witness:
  "threshold_mC noisy_device = 45000 \<and> \<not> threshold_crossed noisy_device
   \<and> map (\<lambda>(s, a). (temp_mC s, flags s, a))
        (fst (feed_temps [(40000, 1), (46000, 2), (47000, 3), (44000, 4), (46000, 5)] noisy_device)) =
      [(40000, 1, 0), (46000, 3, 1), (47000, 1, 1), (44000, 1, 1), (46000, 3, 2)]"
proof -
  have t: "threshold_mC noisy_device = 45000"
    by (simp add: noisy_device_def simtemp_probe_def DEFAULT_THRESHOLD_MC_def)
  have c: "\<not> threshold_crossed noisy_device"
    by (simp add: noisy_device_def simtemp_probe_def)
  have a: "threshold_alerts (stats noisy_device) = 0"
    by (simp add: noisy_device_def simtemp_probe_def)
  show ?thesis
    using latch_single_fire [OF t c, of 1 2 3 4 5] t c
    by (simp add: a SIMTEMP_FLAG_NEW_SAMPLE_def SIMTEMP_FLAG_THRESHOLD_CROSSED_def)
qed

text \<open>
  The same five temperatures drawn by the generator itself in Noisy mode
  (\<open>45000 + r mod 30000 - 15000\<close> for the draws 10000, 16000, 17000, 14000,
  16000), through the whole callback, read back from the ring buffer.
\<close>

lemma latch_end_to_end:
  "rb_contents (ringbuf (run_ticks [(10000, 1), (16000, 2), (17000, 3), (14000, 4), (16000, 5)]
       noisy_device)) =
     [\<lparr>timestamp_ns = 1, temp_mC = 40000, flags = 1\<rparr>,
      \<lparr>timestamp_ns = 2, temp_mC = 46000, flags = 3\<rparr>,
      \<lparr>timestamp_ns = 3, temp_mC = 47000, flags = 1\<rparr>,
      \<lparr>timestamp_ns = 4, temp_mC = 44000, flags = 1\<rparr>,
      \<lparr>timestamp_ns = 5, temp_mC = 46000, flags = 3\<rparr>]
   \<and> threshold_alerts (stats (run_ticks [(10000, 1), (16000, 2), (17000, 3), (14000, 4), (16000, 5)]
       noisy_device)) = 2"
  by code_simp

subsection \<open>Signed arithmetic of the generator\<close>

lemma sint_add_in_range:
  fixes a b :: "32 word"
  assumes "- 2147483648 \<le> sint a + sint b" and "sint a + sint b < 2147483648"
  shows "sint (a + b) = sint a + sint b"
proof -
  have "sint (a + b) = signed_take_bit 31 (sint a + sint b)"
    by (simp add: sint_word_ariths)
  also have "\<dots> = sint a + sint b"
    using assms by (intro signed_take_bit_int_eq_self) simp_all
  finally show ?thesis .
qed

lemma sint_sub_in_range:
  fixes a b :: "32 word"
  assumes "- 2147483648 \<le> sint a - sint b" and "sint a - sint b < 2147483648"
  shows "sint (a - b) = sint a - sint b"
proof -
  have "sint (a - b) = signed_take_bit 31 (sint a - sint b)"
    by (simp add: sint_word_ariths)
  also have "\<dots> = sint a - sint b"
    using assms by (intro signed_take_bit_int_eq_self) simp_all
  finally show ?thesis .
qed

lemma sint_of_small:
  fixes w :: "32 word"
  assumes "uint w < 2147483648"
  shows "sint w = uint w"
proof -
  have "sint w = signed_take_bit 31 (uint w)" by (simp add: sint_uint)
  also have "\<dots> = uint w"
  proof (rule signed_take_bit_int_eq_self)
    have "- (2 ^ 31) \<le> (0::int)" by simp
    also have "0 \<le> uint w" by simp
    finally show "- (2 ^ 31) \<le> uint w" .
    show "uint w < 2 ^ 31" using assms by simp
  qed
  finally show ?thesis .
qed

lemma sint_mod_bound:
  fixes r m :: "32 word"
  assumes "0 < uint m" and "uint m < 2147483648"
  shows "sint (r mod m) = uint r mod uint m" 
proof -
  have u: "uint (r mod m) = uint r mod uint m" by (rule uint_mod_distrib)
  have "uint r mod uint m < uint m" using assms(1) by simp
  then have "uint (r mod m) < 2147483648" using assms(2) u by simp
  then show ?thesis using u by (simp add: sint_of_small)
qed

lemma normal_value:
  fixes r :: "32 word"
  shows "sint (45000 + (r mod 4000 - 2000)) = 43000 + uint r mod 4000"
proof -
  have m: "sint (r mod 4000) = uint r mod 4000" using sint_mod_bound [of 4000 r] by simp
  have b: "0 \<le> uint r mod 4000" "uint r mod 4000 < 4000" by simp_all
  have s: "sint (r mod 4000 - 2000) = uint r mod 4000 - 2000"
    using sint_sub_in_range [of "r mod 4000" 2000] m b by simp
  show ?thesis
    using sint_add_in_range [of 45000 "r mod 4000 - 2000"] s b by simp
qed

lemma noisy_value:
  fixes r :: "32 word"
  shows "sint (45000 + (r mod 30000 - 15000)) = 30000 + uint r mod 30000"
proof -
  have m: "sint (r mod 30000) = uint r mod 30000" using sint_mod_bound [of 30000 r] by simp
  have b: "0 \<le> uint r mod 30000" "uint r mod 30000 < 30000" by simp_all
  have s: "sint (r mod 30000 - 15000) = uint r mod 30000 - 15000"
    using sint_sub_in_range [of "r mod 30000" 15000] m b by simp
  show ?thesis
    using sint_add_in_range [of 45000 "r mod 30000 - 15000"] s b by simp
qed

lemma normal_value_sum: "sint (43000 + (r::32 word) mod 4000) = 43000 + uint r mod 4000"
  using normal_value [of r] by simp

lemma noisy_value_sum: "sint (30000 + (r::32 word) mod 30000) = 30000 + uint r mod 30000"
  using noisy_value [of r] by simp

subsection \<open>Ramp mode\<close>

lemma sle_70000: "((70000::s32) \<le>s y) = (70000 \<le> sint y)"
  by (simp add: word_sle_eq)

lemma sle_30000: "(y \<le>s (30000::s32)) = (sint y \<le> 30000)"
  by (simp add: word_sle_eq)

lemma ramp_up:
  assumes "mode dev = SIMTEMP_MODE_RAMP" and "ramp_direction dev"
    and "30000 \<le> sint (current_temp_mC dev)" and "sint (current_temp_mC dev) \<le> 70000"
  shows "simtemp_generate_temperature r dev =
           (if 69500 \<le> sint (current_temp_mC dev)
            then (70000, dev\<lparr>current_temp_mC := 70000, ramp_direction := False\<rparr>)
            else (current_temp_mC dev + 500, dev\<lparr>current_temp_mC := current_temp_mC dev + 500\<rparr>))"
    and "sint (current_temp_mC dev + 500) = sint (current_temp_mC dev) + 500"
proof -
  show s: "sint (current_temp_mC dev + 500) = sint (current_temp_mC dev) + 500"
    using sint_add_in_range [of "current_temp_mC dev" 500] assms(3,4) by simp
  show "simtemp_generate_temperature r dev =
           (if 69500 \<le> sint (current_temp_mC dev)
            then (70000, dev\<lparr>current_temp_mC := 70000, ramp_direction := False\<rparr>)
            else (current_temp_mC dev + 500, dev\<lparr>current_temp_mC := current_temp_mC dev + 500\<rparr>))"
    using assms(1,2)
    by (simp add: simtemp_generate_temperature_def SIMTEMP_MODE_RAMP_def SIMTEMP_MODE_NORMAL_def
        SIMTEMP_MODE_NOISY_def Let_def sle_70000 s)
qed

lemma ramp_down:
  assumes "mode dev = SIMTEMP_MODE_RAMP" and "\<not> ramp_direction dev"
    and "30000 \<le> sint (current_temp_mC dev)" and "sint (current_temp_mC dev) \<le> 70000"
  shows "simtemp_generate_temperature r dev =
           (if sint (current_temp_mC dev) \<le> 30500
            then (30000, dev\<lparr>current_temp_mC := 30000, ramp_direction := True\<rparr>)
            else (current_temp_mC dev - 500, dev\<lparr>current_temp_mC := current_temp_mC dev - 500\<rparr>))"
    and "sint (current_temp_mC dev - 500) = sint (current_temp_mC dev) - 500"
proof -
  show s: "sint (current_temp_mC dev - 500) = sint (current_temp_mC dev) - 500"
    using sint_sub_in_range [of "current_temp_mC dev" 500] assms(3,4) by simp
  show "simtemp_generate_temperature r dev =
           (if sint (current_temp_mC dev) \<le> 30500
            then (30000, dev\<lparr>current_temp_mC := 30000, ramp_direction := True\<rparr>)
            else (current_temp_mC dev - 500, dev\<lparr>current_temp_mC := current_temp_mC dev - 500\<rparr>))"
    using assms(1,2)
    by (simp add: simtemp_generate_temperature_def SIMTEMP_MODE_RAMP_def SIMTEMP_MODE_NORMAL_def
        SIMTEMP_MODE_NOISY_def Let_def sle_30000 s)
qed


lemma wave_bounds: "30000 \<le> spec_ramp_wave k \<and> spec_ramp_wave k \<le> 70000"
proof -
  have "k mod 160 < 160" by simp
  then show ?thesis
    unfolding spec_ramp_wave_def Let_def by (auto split: if_splits)
qed

lemma wave_up_next:
  assumes "spec_ramp_up k"
  shows "(69500 \<le> spec_ramp_wave k \<longrightarrow> spec_ramp_wave (Suc k) = 70000 \<and> \<not> spec_ramp_up (Suc k))
       \<and> (\<not> 69500 \<le> spec_ramp_wave k \<longrightarrow>
            spec_ramp_wave (Suc k) = spec_ramp_wave k + 500 \<and> spec_ramp_up (Suc k))"
proof -
  have "k mod 160 < 160" by simp
  then show ?thesis
    using assms unfolding spec_ramp_wave_def spec_ramp_up_def Let_def mod_Suc
    by (auto split: if_splits)
qed

lemma wave_down_next:
  assumes "\<not> spec_ramp_up k"
  shows "(spec_ramp_wave k \<le> 30500 \<longrightarrow> spec_ramp_wave (Suc k) = 30000 \<and> spec_ramp_up (Suc k))
       \<and> (\<not> spec_ramp_wave k \<le> 30500 \<longrightarrow>
            spec_ramp_wave (Suc k) = spec_ramp_wave k - 500 \<and> \<not> spec_ramp_up (Suc k))"
proof -
  have "k mod 160 < 160" by simp
  then show ?thesis
    using assms unfolding spec_ramp_wave_def spec_ramp_up_def Let_def mod_Suc
    by (auto split: if_splits)
qed

lemma ramp_phase_step:
  assumes m: "mode dev = SIMTEMP_MODE_RAMP"
    and c: "sint (current_temp_mC dev) = spec_ramp_wave k"
    and d: "ramp_direction dev = spec_ramp_up k"
  shows "sint (fst (simtemp_generate_temperature r dev)) = spec_ramp_wave (Suc k)
     \<and> current_temp_mC (snd (simtemp_generate_temperature r dev)) =
         fst (simtemp_generate_temperature r dev)
     \<and> ramp_direction (snd (simtemp_generate_temperature r dev)) = spec_ramp_up (Suc k)
     \<and> mode (snd (simtemp_generate_temperature r dev)) = SIMTEMP_MODE_RAMP
     \<and> simtemp_generate_temperature r dev = simtemp_generate_temperature 0 dev"
proof -
  have lo: "30000 \<le> sint (current_temp_mC dev)" and hi: "sint (current_temp_mC dev) \<le> 70000"
    using wave_bounds [of k] c by simp_all
  show ?thesis
  proof (cases "spec_ramp_up k")
    case True
    then have dir: "ramp_direction dev" using d by simp
    note g = ramp_up [OF m dir lo hi]
    show ?thesis
      using wave_up_next [OF True] c m dir by (simp add: g)
  next
    case False
    then have dir: "\<not> ramp_direction dev" using d by simp
    note g = ramp_down [OF m dir lo hi]
    show ?thesis
      using wave_down_next [OF False] c m dir by (simp add: g)
  qed
qed

lemma ramp_run:
  assumes "mode dev = SIMTEMP_MODE_RAMP"
    and "sint (current_temp_mC dev) = spec_ramp_wave k"
    and "ramp_direction dev = spec_ramp_up k"
  shows "map sint (fst (generate_all rs dev)) = map (\<lambda>i. spec_ramp_wave (k + Suc i)) [0..<length rs]
     \<and> sint (current_temp_mC (snd (generate_all rs dev))) = spec_ramp_wave (k + length rs)
     \<and> ramp_direction (snd (generate_all rs dev)) = spec_ramp_up (k + length rs)
     \<and> generate_all rs dev = generate_all (replicate (length rs) 0) dev"
  using assms
proof (induction rs arbitrary: dev k)
  case Nil
  then show ?case by simp
next
  case (Cons r rs)
  obtain t d where g: "simtemp_generate_temperature r dev = (t, d)"
    by (cases "simtemp_generate_temperature r dev")
  note st = ramp_phase_step [OF Cons.prems, of r, unfolded g fst_conv snd_conv]
  have g0: "simtemp_generate_temperature 0 dev = (t, d)" using st by simp
  have m: "mode d = SIMTEMP_MODE_RAMP" using st by simp
  have c: "sint (current_temp_mC d) = spec_ramp_wave (Suc k)" using st by simp
  have dr: "ramp_direction d = spec_ramp_up (Suc k)" using st by simp
  note ih = Cons.IH [OF m c dr]
  note ih1 = ih [THEN conjunct1]
  note ih2 = ih [THEN conjunct2, THEN conjunct1]
  note ih3 = ih [THEN conjunct2, THEN conjunct2, THEN conjunct1]
  note ih4 = ih [THEN conjunct2, THEN conjunct2, THEN conjunct2]
  have t: "sint t = spec_ramp_wave (Suc k)" using st by simp
  have up: "[0..<length (r # rs)] = 0 # map Suc [0..<length rs]"
    by (simp add: upt_conv_Cons map_Suc_upt del: upt_Suc)
  have e: "generate_all (r # rs) dev = (t # fst (generate_all rs d), snd (generate_all rs d))"
    by (simp add: g case_prod_beta)
  have e0: "generate_all (replicate (length (r # rs)) 0) dev =
      (t # fst (generate_all (replicate (length rs) 0) d),
       snd (generate_all (replicate (length rs) 0) d))"
    by (simp add: g0 case_prod_beta)
  have 1: "map sint (fst (generate_all (r # rs) dev)) =
      map (\<lambda>i. spec_ramp_wave (k + Suc i)) [0..<length (r # rs)]"
    unfolding up e using ih1 t by (simp add: comp_def)
  have 2: "sint (current_temp_mC (snd (generate_all (r # rs) dev))) =
      spec_ramp_wave (k + length (r # rs))"
    unfolding e using ih2 by simp
  have 3: "ramp_direction (snd (generate_all (r # rs) dev)) = spec_ramp_up (k + length (r # rs))"
    unfolding e using ih3 by simp
  have 4: "generate_all (r # rs) dev = generate_all (replicate (length (r # rs)) 0) dev"
    unfolding e e0 using ih4 by simp
  from 1 2 3 4 show ?case by blast
qed

lemma wave_0: "spec_ramp_wave 0 = 40000" and up_0: "spec_ramp_up 0"
  by (simp_all add: spec_ramp_wave_def spec_ramp_up_def)

text \<open>
  C3. In Ramp mode from temperature 40000 with direction up, whatever the
  random draws: after \<open>k \<le> 60\<close> ticks the temperature is
  \<open>40000 + 500 k\<close>, reaching 70000 at tick 60, where the direction flips; for
  \<open>60 \<le> k \<le> 140\<close> it is \<open>70000 - 500 (k - 60)\<close>, reaching 30000 at tick
  140, where the direction flips again; then it rises again. Every value the
  generator returns is the wave's, and the run depends on the number of ticks
  only, not on the draws.
\<close>

theorem ramp_deterministic:
  assumes "mode dev = SIMTEMP_MODE_RAMP" and "current_temp_mC dev = 40000"
    and "ramp_direction dev"
  shows "map sint (fst (generate_all rs dev)) = map (\<lambda>i. spec_ramp_wave (Suc i)) [0..<length rs]
     \<and> (length rs \<le> 60 \<longrightarrow>
          sint (current_temp_mC (snd (generate_all rs dev))) = 40000 + 500 * int (length rs)
          \<and> ramp_direction (snd (generate_all rs dev)) = (length rs < 60))
     \<and> (60 \<le> length rs \<and> length rs \<le> 140 \<longrightarrow>
          sint (current_temp_mC (snd (generate_all rs dev))) = 70000 - 500 * (int (length rs) - 60)
          \<and> ramp_direction (snd (generate_all rs dev)) = (length rs = 140))
     \<and> (140 \<le> length rs \<and> length rs \<le> 160 \<longrightarrow>
          sint (current_temp_mC (snd (generate_all rs dev))) = 30000 + 500 * (int (length rs) - 140)
          \<and> ramp_direction (snd (generate_all rs dev)))
     \<and> generate_all rs dev = generate_all (replicate (length rs) 0) dev"
proof -
  have c: "sint (current_temp_mC dev) = spec_ramp_wave 0" using assms(2) by (simp add: wave_0)
  have d: "ramp_direction dev = spec_ramp_up 0" using assms(3) by (simp add: up_0)
  note run = ramp_run [OF assms(1) c d, of rs, simplified]
  note r1 = run [THEN conjunct1]
  note r2 = run [THEN conjunct2, THEN conjunct1]
  note r3 = run [THEN conjunct2, THEN conjunct2, THEN conjunct1]
  note r4 = run [THEN conjunct2, THEN conjunct2, THEN conjunct2]
  have a: "length rs \<le> 60 \<longrightarrow>
      spec_ramp_wave (length rs) = 40000 + 500 * int (length rs)
      \<and> spec_ramp_up (length rs) = (length rs < 60)"
    by (auto simp add: spec_ramp_wave_def spec_ramp_up_def Let_def)
  have b: "60 \<le> length rs \<and> length rs \<le> 140 \<longrightarrow>
      spec_ramp_wave (length rs) = 70000 - 500 * (int (length rs) - 60)
      \<and> spec_ramp_up (length rs) = (length rs = 140)"
    by (auto simp add: spec_ramp_wave_def spec_ramp_up_def Let_def)
  have e: "140 \<le> length rs \<and> length rs \<le> 160 \<longrightarrow>
      spec_ramp_wave (length rs) = 30000 + 500 * (int (length rs) - 140)
      \<and> spec_ramp_up (length rs)"
  proof (cases "length rs = 160")
    case True
    then show ?thesis by (simp add: spec_ramp_wave_def spec_ramp_up_def)
  next
    case False
    then show ?thesis by (auto simp add: spec_ramp_wave_def spec_ramp_up_def Let_def)
  qed
  show ?thesis
    using r1 r4 a b e unfolding r2 r3 by blast
qed

theorem ramp_deterministic_witness:
  "mode ramp_device = SIMTEMP_MODE_RAMP \<and> current_temp_mC ramp_device = 40000
   \<and> ramp_direction ramp_device
   \<and> length (replicate 3 (7::u32)) \<le> 60
   \<and> sint (current_temp_mC (snd (generate_all (replicate 3 7) ramp_device))) = 41500
   \<and> ramp_direction (snd (generate_all (replicate 3 7) ramp_device))
   \<and> 60 \<le> length (replicate 100 (7::u32)) \<and> length (replicate 100 (7::u32)) \<le> 140
   \<and> sint (current_temp_mC (snd (generate_all (replicate 100 7) ramp_device))) = 50000
   \<and> \<not> ramp_direction (snd (generate_all (replicate 100 7) ramp_device))
   \<and> 140 \<le> length (replicate 150 (7::u32)) \<and> length (replicate 150 (7::u32)) \<le> 160
   \<and> sint (current_temp_mC (snd (generate_all (replicate 150 7) ramp_device))) = 35000
   \<and> ramp_direction (snd (generate_all (replicate 150 7) ramp_device))"
proof -
  have m: "mode ramp_device = SIMTEMP_MODE_RAMP"
    and c: "current_temp_mC ramp_device = 40000"
    and d: "ramp_direction ramp_device"
    by (simp_all add: ramp_device_def simtemp_probe_def)
  have l: "length (replicate 3 (7::u32)) = 3" "length (replicate 100 (7::u32)) = 100"
    "length (replicate 150 (7::u32)) = 150"
    by simp_all
  note t = ramp_deterministic [OF m c d]
  have up: "sint (current_temp_mC (snd (generate_all (replicate 3 7) ramp_device))) = 41500
      \<and> ramp_direction (snd (generate_all (replicate 3 7) ramp_device))"
    using t [of "replicate 3 7", THEN conjunct2, THEN conjunct1] unfolding l by simp
  have down: "sint (current_temp_mC (snd (generate_all (replicate 100 7) ramp_device))) = 50000
      \<and> \<not> ramp_direction (snd (generate_all (replicate 100 7) ramp_device))"
    using t [of "replicate 100 7", THEN conjunct2, THEN conjunct2, THEN conjunct1]
    unfolding l by simp
  have again: "sint (current_temp_mC (snd (generate_all (replicate 150 7) ramp_device))) = 35000
      \<and> ramp_direction (snd (generate_all (replicate 150 7) ramp_device))"
    using t [of "replicate 150 7", THEN conjunct2, THEN conjunct2, THEN conjunct2,
        THEN conjunct1]
    unfolding l by simp
  show ?thesis
    using up down again m c d unfolding l by simp
qed

subsection \<open>Range of the generated temperature\<close>

lemma gen_inv_probe: "gen_inv (simtemp_probe a b)"
  by (simp add: gen_inv_def simtemp_probe_def Let_def)

lemma ramp_value_range:
  assumes "gen_inv dev" and m: "mode dev = SIMTEMP_MODE_RAMP"
  shows "30000 \<le> sint (fst (simtemp_generate_temperature r dev))
      \<and> sint (fst (simtemp_generate_temperature r dev)) \<le> 70000
      \<and> current_temp_mC (snd (simtemp_generate_temperature r dev)) =
          fst (simtemp_generate_temperature r dev)"
proof -
  have lo: "30000 \<le> sint (current_temp_mC dev)" and hi: "sint (current_temp_mC dev) \<le> 70000"
    using assms(1) by (simp_all add: gen_inv_def)
  show ?thesis
  proof (cases "ramp_direction dev")
    case True
    show ?thesis using lo hi by (simp add: ramp_up [OF m True lo hi])
  next
    case False
    show ?thesis using lo hi by (simp add: ramp_down [OF m False lo hi])
  qed
qed

lemma generator_keeps_inv:
  assumes "gen_inv dev"
  shows "gen_inv (snd (simtemp_generate_temperature r dev))"
proof (cases "mode dev = SIMTEMP_MODE_RAMP")
  case True
  then show ?thesis using ramp_value_range [OF assms] by (simp add: gen_inv_def)
next
  case False
  then have "snd (simtemp_generate_temperature r dev) = dev"
    by (simp add: simtemp_generate_temperature_def Let_def)
  then show ?thesis using assms by simp
qed

lemma ramp_value_exact:
  assumes "gen_inv dev" and m: "mode dev = SIMTEMP_MODE_RAMP"
  shows "sint (fst (simtemp_generate_temperature r dev)) =
           (if ramp_direction dev then min 70000 (sint (current_temp_mC dev) + 500)
            else max 30000 (sint (current_temp_mC dev) - 500))"
proof -
  have lo: "30000 \<le> sint (current_temp_mC dev)" and hi: "sint (current_temp_mC dev) \<le> 70000"
    using assms(1) by (simp_all add: gen_inv_def)
  show ?thesis
  proof (cases "ramp_direction dev")
    case True
    show ?thesis using lo hi True by (simp add: ramp_up [OF m True lo hi])
  next
    case False
    show ?thesis using lo hi False by (simp add: ramp_down [OF m False lo hi])
  qed
qed

text \<open>
  C7, as stated, has an unrecognised mode fall back to the Normal-mode
  policy. It does not: on the probed device Normal mode yields
  \<open>45000 + (random mod 4000 - 2000)\<close>, 43000 at draw 0 and 46999 at draw
  3999, while the same device with the mode field set to 7 yields 45000 at
  both draws. The default branch makes no draw and applies no jitter.
\<close>

theorem fallback_not_normal_counterexample:
  "mode (simtemp_probe None None) = SIMTEMP_MODE_NORMAL
   \<and> unknown_mode_device = (simtemp_probe None None)\<lparr>mode := 7\<rparr>
   \<and> fst (simtemp_generate_temperature 0 (simtemp_probe None None)) = 43000
   \<and> fst (simtemp_generate_temperature 0 unknown_mode_device) = 45000
   \<and> fst (simtemp_generate_temperature 3999 (simtemp_probe None None)) = 46999
   \<and> fst (simtemp_generate_temperature 3999 unknown_mode_device) = 45000"
  by code_simp

text \<open>
  C7, amended. For every value of the mode field and every random draw, in
  every state satisfying the generator's invariant (which the call keeps, and
  which holds in every reachable device, see \<open>reachable_invariants\<close>): Normal
  yields \<open>43000 + random mod 4000\<close>, inside \<open>[43000, 47000]\<close>; Noisy yields
  \<open>30000 + random mod 30000\<close>, inside \<open>[30000, 60000]\<close>; Ramp yields the
  stored temperature moved by 500 in the ramp direction and clamped, inside
  \<open>[30000, 70000]\<close>; and a mode outside the enum yields the fixed value 45000,
  the Normal setpoint, inside the Normal range, whatever the draw, with the
  device untouched. The function is total: no mode value is left without a
  result.
\<close>

theorem generator_in_range:
  assumes "gen_inv dev"
  shows "gen_inv (snd (simtemp_generate_temperature r dev))
     \<and> (mode dev = SIMTEMP_MODE_NORMAL \<longrightarrow>
          43000 \<le> sint (fst (simtemp_generate_temperature r dev))
          \<and> sint (fst (simtemp_generate_temperature r dev)) \<le> 47000
          \<and> sint (fst (simtemp_generate_temperature r dev)) = 43000 + uint r mod 4000
          \<and> snd (simtemp_generate_temperature r dev) = dev)
     \<and> (mode dev = SIMTEMP_MODE_NOISY \<longrightarrow>
          30000 \<le> sint (fst (simtemp_generate_temperature r dev))
          \<and> sint (fst (simtemp_generate_temperature r dev)) \<le> 60000
          \<and> sint (fst (simtemp_generate_temperature r dev)) = 30000 + uint r mod 30000
          \<and> snd (simtemp_generate_temperature r dev) = dev)
     \<and> (mode dev = SIMTEMP_MODE_RAMP \<longrightarrow>
          30000 \<le> sint (fst (simtemp_generate_temperature r dev))
          \<and> sint (fst (simtemp_generate_temperature r dev)) \<le> 70000
          \<and> sint (fst (simtemp_generate_temperature r dev)) =
              (if ramp_direction dev then min 70000 (sint (current_temp_mC dev) + 500)
               else max 30000 (sint (current_temp_mC dev) - 500))
          \<and> current_temp_mC (snd (simtemp_generate_temperature r dev)) =
              fst (simtemp_generate_temperature r dev))
     \<and> (mode dev \<noteq> SIMTEMP_MODE_NORMAL \<and> mode dev \<noteq> SIMTEMP_MODE_NOISY
          \<and> mode dev \<noteq> SIMTEMP_MODE_RAMP \<longrightarrow>
          simtemp_generate_temperature r dev = (45000, dev)
          \<and> 43000 \<le> sint (fst (simtemp_generate_temperature r dev))
          \<and> sint (fst (simtemp_generate_temperature r dev)) \<le> 47000)"
proof -
  have b4: "0 \<le> uint r mod 4000" "uint r mod 4000 < 4000" by simp_all
  have b3: "0 \<le> uint r mod 30000" "uint r mod 30000 < 30000" by simp_all
  have normal: "mode dev = SIMTEMP_MODE_NORMAL \<Longrightarrow>
      simtemp_generate_temperature r dev = (45000 + (r mod 4000 - 2000), dev)"
    by (simp add: simtemp_generate_temperature_def)
  have n3: "\<not> uint r mod 30000 < 0" "\<not> 30000 < uint r mod 30000"
    using b3 by linarith+
  have noisy: "mode dev = SIMTEMP_MODE_NOISY \<Longrightarrow>
      simtemp_generate_temperature r dev = (45000 + (r mod 30000 - 15000), dev)"
    by (simp add: simtemp_generate_temperature_def SIMTEMP_MODE_NOISY_def SIMTEMP_MODE_NORMAL_def
        Let_def word_sless_alt noisy_value_sum n3)
  have other: "mode dev \<noteq> SIMTEMP_MODE_NORMAL \<Longrightarrow> mode dev \<noteq> SIMTEMP_MODE_NOISY \<Longrightarrow>
      mode dev \<noteq> SIMTEMP_MODE_RAMP \<Longrightarrow> simtemp_generate_temperature r dev = (45000, dev)"
    by (simp add: simtemp_generate_temperature_def)
  have ramp: "mode dev = SIMTEMP_MODE_RAMP \<Longrightarrow>
      30000 \<le> sint (fst (simtemp_generate_temperature r dev))
      \<and> sint (fst (simtemp_generate_temperature r dev)) \<le> 70000
      \<and> current_temp_mC (snd (simtemp_generate_temperature r dev)) =
          fst (simtemp_generate_temperature r dev)"
    using ramp_value_range [OF assms] by simp
  have exact: "mode dev = SIMTEMP_MODE_RAMP \<Longrightarrow>
      sint (fst (simtemp_generate_temperature r dev)) =
        (if ramp_direction dev then min 70000 (sint (current_temp_mC dev) + 500)
         else max 30000 (sint (current_temp_mC dev) - 500))"
    using ramp_value_exact [OF assms] by simp
  have inv: "gen_inv (snd (simtemp_generate_temperature r dev))"
    using assms by (rule generator_keeps_inv)
  have c1: "mode dev = SIMTEMP_MODE_NORMAL \<longrightarrow>
          43000 \<le> sint (fst (simtemp_generate_temperature r dev))
          \<and> sint (fst (simtemp_generate_temperature r dev)) \<le> 47000
          \<and> sint (fst (simtemp_generate_temperature r dev)) = 43000 + uint r mod 4000
          \<and> snd (simtemp_generate_temperature r dev) = dev"
    using b4 by (auto simp add: normal normal_value_sum)
  have c2: "mode dev = SIMTEMP_MODE_NOISY \<longrightarrow>
          30000 \<le> sint (fst (simtemp_generate_temperature r dev))
          \<and> sint (fst (simtemp_generate_temperature r dev)) \<le> 60000
          \<and> sint (fst (simtemp_generate_temperature r dev)) = 30000 + uint r mod 30000
          \<and> snd (simtemp_generate_temperature r dev) = dev"
    using b3 by (auto simp add: noisy noisy_value_sum)
  have c4: "mode dev \<noteq> SIMTEMP_MODE_NORMAL \<and> mode dev \<noteq> SIMTEMP_MODE_NOISY
          \<and> mode dev \<noteq> SIMTEMP_MODE_RAMP \<longrightarrow>
          simtemp_generate_temperature r dev = (45000, dev)
          \<and> 43000 \<le> sint (fst (simtemp_generate_temperature r dev))
          \<and> sint (fst (simtemp_generate_temperature r dev)) \<le> 47000"
    using other by auto
  from inv c1 c2 ramp exact c4 show ?thesis by blast
qed

theorem generator_in_range_witness:
  "gen_inv (simtemp_probe None None) \<and> mode (simtemp_probe None None) = SIMTEMP_MODE_NORMAL
   \<and> 43000 \<le> sint (fst (simtemp_generate_temperature 123456 (simtemp_probe None None)))
   \<and> sint (fst (simtemp_generate_temperature 123456 (simtemp_probe None None))) \<le> 47000
   \<and> gen_inv noisy_device \<and> mode noisy_device = SIMTEMP_MODE_NOISY
   \<and> 30000 \<le> sint (fst (simtemp_generate_temperature 123456 noisy_device))
   \<and> sint (fst (simtemp_generate_temperature 123456 noisy_device)) \<le> 60000
   \<and> gen_inv ramp_device \<and> mode ramp_device = SIMTEMP_MODE_RAMP
   \<and> 30000 \<le> sint (fst (simtemp_generate_temperature 123456 ramp_device))
   \<and> sint (fst (simtemp_generate_temperature 123456 ramp_device)) \<le> 70000
   \<and> gen_inv unknown_mode_device
   \<and> mode unknown_mode_device \<noteq> SIMTEMP_MODE_NORMAL
   \<and> mode unknown_mode_device \<noteq> SIMTEMP_MODE_NOISY
   \<and> mode unknown_mode_device \<noteq> SIMTEMP_MODE_RAMP
   \<and> simtemp_generate_temperature 123456 unknown_mode_device = (45000, unknown_mode_device)"
proof -
  have i: "gen_inv (simtemp_probe None None)" "gen_inv noisy_device" "gen_inv ramp_device"
    "gen_inv unknown_mode_device"
    by (simp_all add: gen_inv_def noisy_device_def ramp_device_def unknown_mode_device_def
        simtemp_probe_def)
  have m: "mode (simtemp_probe None None) = SIMTEMP_MODE_NORMAL"
    "mode noisy_device = SIMTEMP_MODE_NOISY" "mode ramp_device = SIMTEMP_MODE_RAMP"
    "mode unknown_mode_device \<noteq> SIMTEMP_MODE_NORMAL"
    "mode unknown_mode_device \<noteq> SIMTEMP_MODE_NOISY"
    "mode unknown_mode_device \<noteq> SIMTEMP_MODE_RAMP"
    by (simp_all add: noisy_device_def ramp_device_def unknown_mode_device_def
        simtemp_probe_def DEFAULT_MODE_def SIMTEMP_MODE_NORMAL_def SIMTEMP_MODE_NOISY_def
        SIMTEMP_MODE_RAMP_def)
  have normal: "43000 \<le> sint (fst (simtemp_generate_temperature 123456 (simtemp_probe None None)))
      \<and> sint (fst (simtemp_generate_temperature 123456 (simtemp_probe None None))) \<le> 47000"
    using generator_in_range [OF i(1), of 123456] m(1) by blast
  have noisy: "30000 \<le> sint (fst (simtemp_generate_temperature 123456 noisy_device))
      \<and> sint (fst (simtemp_generate_temperature 123456 noisy_device)) \<le> 60000"
    using generator_in_range [OF i(2), of 123456] m(2) by blast
  have ramp: "30000 \<le> sint (fst (simtemp_generate_temperature 123456 ramp_device))
      \<and> sint (fst (simtemp_generate_temperature 123456 ramp_device)) \<le> 70000"
    using generator_in_range [OF i(3), of 123456] m(3) by blast
  have other: "simtemp_generate_temperature 123456 unknown_mode_device = (45000, unknown_mode_device)"
    using generator_in_range [OF i(4), of 123456] m(4,5,6) by blast
  from i m normal noisy ramp other show ?thesis by blast
qed

subsection \<open>Configuration writes\<close>

lemma tick_rearms:
  "timer (simtemp_timer_callback random now dev) = Timer_armed (sampling_period dev)"
proof -
  have g: "sampling_period (snd (simtemp_generate_temperature random dev)) = sampling_period dev"
    by (simp add: simtemp_generate_temperature_def Let_def)
  have c: "\<And>t d. sampling_period (snd (threshold_check t now d)) = sampling_period d"
    by (simp add: threshold_check_def Let_def)
  have e: "\<And>s d. timer (snd (enqueue_sample s d)) = Timer_armed (sampling_period d)"
    by (simp add: enqueue_sample_def Let_def hrtimer_forward_now_def split: prod.splits)
  show ?thesis
    using g c [of "fst (simtemp_generate_temperature random dev)"
                  "snd (simtemp_generate_temperature random dev)"]
    by (simp add: simtemp_timer_callback_def e case_prod_beta)
qed

text \<open>
  C5. A write to \<^verbatim>\<open>sampling_ms\<close> whose text parses to 50 succeeds (it
  returns \<open>count\<close>), a read of the attribute then shows 50, and on return
  the timer has been cancelled and started again with the new period of
  50 ms (50000000 ns), whatever the old period was; the next callback re-arms
  it with the same new period.
\<close>

theorem period_round_trip:
  assumes "kstrtouint buf = Inr 50"
  shows "fst (sampling_ms_store buf count sdev) = int count
     \<and> sampling_ms_show (snd (sampling_ms_store buf count sdev)) = ''50'' @ [CHR 0x0A]
     \<and> sampling_period (snd (sampling_ms_store buf count sdev)) = 50000000
     \<and> timer (snd (sampling_ms_store buf count sdev)) = Timer_armed 50000000
     \<and> timer (simtemp_timer_callback random now (snd (sampling_ms_store buf count sdev))) =
         Timer_armed 50000000"
proof -
  have e: "emit_u 50 = ''50'' @ [CHR 0x0A]"
    by code_simp
  have s: "sampling_ms_store buf count sdev =
      (int count, sdev\<lparr>sampling_ms := 50, sampling_period := 50000000,
                         timer := Timer_armed 50000000\<rparr>)"
    using assms
    by (simp add: sampling_ms_store_def SIMTEMP_SAMPLING_MS_MIN_def SIMTEMP_SAMPLING_MS_MAX_def
        ms_to_ktime_def hrtimer_cancel_def hrtimer_start_def Let_def)
  show ?thesis
    by (simp add: s sampling_ms_show_def e tick_rearms)
qed

theorem period_round_trip_witness:
  "kstrtouint (''50'' @ [CHR 0x0A]) = Inr 50
   \<and> sampling_ms_show (simtemp_probe None None) = ''100'' @ [CHR 0x0A]
   \<and> timer (simtemp_probe None None) = Timer_armed 100000000
   \<and> fst (sampling_ms_store (''50'' @ [CHR 0x0A]) 3 (simtemp_probe None None)) = 3
   \<and> sampling_ms_show (snd (sampling_ms_store (''50'' @ [CHR 0x0A]) 3 (simtemp_probe None None))) =
       ''50'' @ [CHR 0x0A]
   \<and> timer (snd (sampling_ms_store (''50'' @ [CHR 0x0A]) 3 (simtemp_probe None None))) =
       Timer_armed 50000000"
proof -
  have p: "kstrtouint (''50'' @ [CHR 0x0A]) = Inr 50" by code_simp
  have o: "sampling_ms_show (simtemp_probe None None) = ''100'' @ [CHR 0x0A]" by code_simp
  have t: "timer (simtemp_probe None None) = Timer_armed 100000000" by code_simp
  show ?thesis
    using period_round_trip [OF p, of 3 "simtemp_probe None None"] p o t by simp
qed

text \<open>
  C6. A write to \<^verbatim>\<open>threshold_mC\<close> whose text parses to 200000 returns
  \<^verbatim>\<open>-EINVAL\<close> and leaves the whole device, the threshold included, as it
  was; a read of the attribute shows the previous value.
\<close>

theorem threshold_rejects_out_of_range:
  assumes "kstrtoint buf = Inr 200000"
  shows "threshold_mC_store buf count sdev = (- EINVAL, sdev)
     \<and> threshold_mC_show (snd (threshold_mC_store buf count sdev)) = threshold_mC_show sdev"
  using assms
  by (simp add: threshold_mC_store_def SIMTEMP_THRESHOLD_MC_MIN_def SIMTEMP_THRESHOLD_MC_MAX_def
      word_sless_alt)

theorem threshold_rejects_out_of_range_witness:
  "kstrtoint ''200000'' = Inr 200000
   \<and> threshold_mC_store ''200000'' 6 (simtemp_probe None None) = (- EINVAL, simtemp_probe None None)
   \<and> threshold_mC_show (snd (threshold_mC_store ''200000'' 6 (simtemp_probe None None))) =
       ''45000'' @ [CHR 0x0A]"
proof -
  have p: "kstrtoint ''200000'' = Inr 200000" by code_simp
  have o: "threshold_mC_show (simtemp_probe None None) = ''45000'' @ [CHR 0x0A]" by code_simp
  show ?thesis
    using threshold_rejects_out_of_range [OF p, of 6 "simtemp_probe None None"] p o by simp
qed

subsection \<open>Read\<close>

text \<open>
  C8. A blocking read with a large enough buffer that finds the ring buffer
  empty and is interrupted by a signal returns \<^verbatim>\<open>-ERESTARTSYS\<close>, delivers
  no sample and leaves the device, ring buffer and counters included,
  unchanged.
\<close>

theorem read_interrupted:
  assumes "sizeof_simtemp_sample \<le> count" and "simtemp_ringbuf_empty (ringbuf dev)"
  shows "simtemp_read False count True copy_fault dev = Some (- ERESTARTSYS, dev, None)"
  using assms
  by (simp add: simtemp_read_def wait_event_interruptible_def ERESTARTSYS_def Let_def)

theorem read_interrupted_witness:
  "sizeof_simtemp_sample \<le> 16 \<and> simtemp_ringbuf_empty (ringbuf (simtemp_probe None None))
   \<and> simtemp_read False 16 True False (simtemp_probe None None) =
       Some (- 512, simtemp_probe None None, None)"
proof -
  have s: "sizeof_simtemp_sample \<le> 16" by (simp add: sizeof_simtemp_sample_def)
  have e: "simtemp_ringbuf_empty (ringbuf (simtemp_probe None None))"
    by (simp add: simtemp_probe_def Let_def empty_init)
  show ?thesis
    using read_interrupted [OF s e, of False] s e by (simp add: ERESTARTSYS_def)
qed

text \<open>
  C9. A read with a destination of fewer than 16 bytes returns
  \<^verbatim>\<open>-EINVAL\<close> in either mode, delivers nothing and leaves the device
  unchanged: no sample has been taken from the ring buffer.
\<close>

theorem read_short_buffer:
  assumes "count < 16"
  shows "simtemp_read nonblock count signal_pending copy_fault dev = Some (- EINVAL, dev, None)"
  using assms by (simp add: simtemp_read_def sizeof_simtemp_sample_def Let_def)

theorem read_short_buffer_witness:
  "(8::nat) < 16
   \<and> rb_contents (ringbuf one_sample_device) = [\<lparr>timestamp_ns = 0, temp_mC = 43000, flags = 1\<rparr>]
   \<and> simtemp_read False 8 False False one_sample_device = Some (- 22, one_sample_device, None)"
proof -
  have c: "(8::nat) < 16" by simp
  have q: "rb_contents (ringbuf one_sample_device) =
      [\<lparr>timestamp_ns = 0, temp_mC = 43000, flags = 1\<rparr>]"
    by code_simp
  show ?thesis
    using read_short_buffer [OF c, of False False False one_sample_device] c q
    by (simp add: EINVAL_def)
qed

text \<open>
  C10. When the wait has succeeded (the ring buffer holds a sample) and
  \<^verbatim>\<open>copy_to_user\<close> fails, read returns \<^verbatim>\<open>-EFAULT\<close> and delivers nothing,
  yet the oldest sample has been removed from the ring buffer and
  \<open>read_count\<close> has been incremented: that sample is lost.
\<close>

theorem read_copy_fault_loses_sample:
  assumes "sizeof_simtemp_sample \<le> count" and "rb_wf (ringbuf dev)"
    and "rb_contents (ringbuf dev) = x # xs"
  shows "simtemp_read nonblock count signal_pending True dev =
           Some (- EFAULT,
                 dev\<lparr>ringbuf := fst (snd (simtemp_ringbuf_get (ringbuf dev))),
                     stats := (stats dev)\<lparr>read_count := read_count (stats dev) + 1\<rparr>\<rparr>,
                 None)
     \<and> snd (snd (simtemp_ringbuf_get (ringbuf dev))) = Some x
     \<and> rb_contents (fst (snd (simtemp_ringbuf_get (ringbuf dev)))) = xs"
proof -
  obtain rb1 where g: "simtemp_ringbuf_get (ringbuf dev) = (0, rb1, Some x)"
    using get_ok(1,2) [OF assms(2,3)] by (cases "simtemp_ringbuf_get (ringbuf dev)") simp
  have c: "rb_contents rb1 = xs" using get_ok(4) [OF assms(2,3)] by (simp add: g)
  have ne: "\<not> simtemp_ringbuf_empty (ringbuf dev)"
    using assms(2,3) by (simp add: empty_iff_contents)
  show ?thesis
    using assms(1) ne c
    by (simp add: simtemp_read_def wait_event_interruptible_def g Let_def EAGAIN_def)
qed


theorem read_copy_fault_loses_sample_witness:
  "sizeof_simtemp_sample \<le> 16 \<and> rb_wf (ringbuf one_sample_device)
   \<and> rb_contents (ringbuf one_sample_device) = [\<lparr>timestamp_ns = 0, temp_mC = 43000, flags = 1\<rparr>]
   \<and> simtemp_read False 16 False True one_sample_device =
       Some (- EFAULT,
             one_sample_device
               \<lparr>ringbuf := fst (snd (simtemp_ringbuf_get (ringbuf one_sample_device))),
                stats := (stats one_sample_device)
                  \<lparr>read_count := read_count (stats one_sample_device) + 1\<rparr>\<rparr>,
             None)
   \<and> rb_contents (fst (snd (simtemp_ringbuf_get (ringbuf one_sample_device)))) = []"
proof -
  have s: "sizeof_simtemp_sample \<le> 16" by (simp add: sizeof_simtemp_sample_def)
  have w: "rb_wf (ringbuf one_sample_device)" by code_simp
  have q: "rb_contents (ringbuf one_sample_device) =
      [\<lparr>timestamp_ns = 0, temp_mC = 43000, flags = 1\<rparr>]"
    by code_simp
  show ?thesis
    using read_copy_fault_loses_sample [OF s w q, of False False] s w q by simp
qed

subsection \<open>Invariants of every reachable device\<close>

text \<open>
  The hypotheses used above hold wherever the driver can get: in every
  reachable device the generator's invariant holds and the ring buffer is
  well formed.
\<close>

lemma put_keeps_wf: "rb_wf rb \<Longrightarrow> rb_wf (snd (simtemp_ringbuf_put rb s))"
proof (cases "unat (simtemp_ringbuf_count rb) < 63")
  case True
  assume "rb_wf rb"
  then show ?thesis using True by (rule put_ok(2))
next
  case False
  assume wf: "rb_wf rb"
  then have "unat (simtemp_ringbuf_count rb) = 63"
    using False rb_contents_le [OF wf] by (simp add: length_rb_contents)
  then show ?thesis using wf by (simp add: put_full)
qed

lemma get_keeps_wf: "rb_wf rb \<Longrightarrow> rb_wf (fst (snd (simtemp_ringbuf_get rb)))"
proof (cases "rb_contents rb")
  case Nil
  assume wf: "rb_wf rb"
  then have "simtemp_ringbuf_empty rb" using Nil by (simp add: empty_iff_contents)
  then show ?thesis using wf by (simp add: simtemp_ringbuf_get_def)
next
  case (Cons x xs)
  assume "rb_wf rb"
  then show ?thesis using Cons by (rule get_ok(3))
qed

lemma tick_fields:
  "ringbuf (simtemp_timer_callback random now d) =
     snd (simtemp_ringbuf_put (ringbuf d)
            (fst (threshold_check (fst (simtemp_generate_temperature random d)) now
                    (snd (simtemp_generate_temperature random d)))))
   \<and> current_temp_mC (simtemp_timer_callback random now d) =
       current_temp_mC (snd (simtemp_generate_temperature random d))"
proof -
  have g: "ringbuf (snd (simtemp_generate_temperature random d)) = ringbuf d"
    by (simp add: simtemp_generate_temperature_def Let_def)
  have c: "\<And>t e. ringbuf (snd (threshold_check t now e)) = ringbuf e
      \<and> current_temp_mC (snd (threshold_check t now e)) = current_temp_mC e"
    by (simp add: threshold_check_def Let_def)
  have e: "\<And>s e. ringbuf (snd (enqueue_sample s e)) = snd (simtemp_ringbuf_put (ringbuf e) s)
      \<and> current_temp_mC (snd (enqueue_sample s e)) = current_temp_mC e"
    by (simp add: enqueue_sample_def Let_def split: prod.splits)
  show ?thesis
    by (simp add: simtemp_timer_callback_def case_prod_beta e c g)
qed

lemma read_fields:
  assumes "simtemp_read nonblock count signal_pending copy_fault d = Some (ret, d', out)"
  shows "current_temp_mC d' = current_temp_mC d
     \<and> (ringbuf d' = ringbuf d \<or> ringbuf d' = fst (snd (simtemp_ringbuf_get (ringbuf d))))"
  using assms
  by (auto simp add: simtemp_read_def Let_def case_prod_beta wait_event_interruptible_def
      split: if_splits option.splits)

lemma reachable_invariants: "reachable d \<Longrightarrow> gen_inv d \<and> rb_wf (ringbuf d)"
proof (induction rule: reachable.induct)
  case (probe dt_sampling dt_threshold)
  show ?case by (simp add: gen_inv_probe) (simp add: simtemp_probe_def Let_def rb_wf_init)
next
  case (tick d random now)
  have "gen_inv (snd (simtemp_generate_temperature random d))"
    using tick.IH generator_keeps_inv by simp
  then show ?case
    using tick.IH by (simp add: tick_fields gen_inv_def put_keeps_wf)
next
  case (store_period d buf count)
  then show ?case
    by (simp add: sampling_ms_store_def gen_inv_def Let_def split: sum.splits)
next
  case (store_threshold d buf count)
  then show ?case
    by (simp add: threshold_mC_store_def gen_inv_def split: sum.splits)
next
  case (set_mode d m)
  then show ?case by (simp add: gen_inv_def)
next
  case (read d nonblock count signal_pending copy_fault ret d' out)
  from read_fields [OF read.hyps(2)] read.IH show ?case
    by (auto simp add: gen_inv_def get_keeps_wf)
qed

end
